theory Spec2Isabelle
  imports Main "HOL-Library.Word"
begin

section \<open>The activity sign-up page controller (src/static/app.js)\<close>

text \<open>
  The controller has three behaviours: \<open>fetchActivities\<close> draws the activity list and
  fills the selection control, the submit handler of the sign-up form registers a
  participant, and the click handler of the activities list removes one. They are
  embedded as functions on an explicit page state. What the browser supplies to a
  handler run (the outcome of each \<open>fetch\<close>, the form values, the clicked element's data
  attributes, the answer to \<open>window.confirm\<close>) is an argument of the handler; what the
  handler does to the page (DOM writes, requests, dialogs, timers, console output) is
  recorded in the state it returns. A handler run is followed in program order, without
  another callback running between its \<open>await\<close>s.
\<close>

subsection \<open>Strings and exceptions\<close>

text \<open>
  A JavaScript string is a sequence of UTF-16 code units; \<open>length\<close> and \<open>charAt\<close> count
  code units. \<open>js\<close> turns an ASCII literal into such a string.
\<close>

type_synonym jsstring = "16 word list"

definition js :: "string \<Rightarrow> jsstring" where
  "js s = map of_char s"

definition code_unit :: "nat \<Rightarrow> 16 word" where
  "code_unit n = of_nat n"

text \<open>
  The exceptions the program can meet. \<open>FetchError\<close> is the rejection of \<open>fetch\<close> on a
  network failure (browsers reject with a TypeError; it is kept apart to tell the causes),
  \<open>SyntaxError\<close> the rejection of \<open>response.json()\<close> on a body that is not JSON.
\<close>

datatype exn = TypeError | URIError | SyntaxError | FetchError

definition prepend :: "jsstring \<Rightarrow> exn + jsstring \<Rightarrow> exn + jsstring" where
  "prepend r x = (case x of Inl e \<Rightarrow> Inl e | Inr t \<Rightarrow> Inr (r @ t))"

subsection \<open>encodeURIComponent and decodeURIComponent\<close>

text \<open>
  The two built-ins, after ECMA-262 (Encode and Decode, sections 19.2.6.5 and 19.2.6.6).
  \<open>encodeURIComponent\<close> keeps the unreserved characters (letters, digits and
  \<open>- _ . ! ~ * ' ( )\<close>), and writes every other code point as the percent-escaped octets
  of its UTF-8 encoding; a surrogate code unit that is not part of a pair raises URIError.
\<close>

definition uriUnreserved :: "16 word \<Rightarrow> bool" where
  "uriUnreserved c = (let u = unat c in
     (65 \<le> u \<and> u \<le> 90) \<or> (97 \<le> u \<and> u \<le> 122) \<or> (48 \<le> u \<and> u \<le> 57)
     \<or> u = 45 \<or> u = 95 \<or> u = 46 \<or> u = 33 \<or> u = 126 \<or> u = 42 \<or> u = 39 \<or> u = 40 \<or> u = 41)"

definition leadSurrogate :: "16 word \<Rightarrow> bool" where
  "leadSurrogate c = (55296 \<le> unat c \<and> unat c \<le> 56319)"

definition trailSurrogate :: "16 word \<Rightarrow> bool" where
  "trailSurrogate c = (56320 \<le> unat c \<and> unat c \<le> 57343)"

definition pair_code_point :: "16 word \<Rightarrow> 16 word \<Rightarrow> nat" where
  "pair_code_point c d = (unat c - 55296) * 1024 + (unat d - 56320) + 65536"

definition utf8_octets :: "nat \<Rightarrow> nat list" where
  "utf8_octets cp =
     (if cp < 128 then [cp]
      else if cp < 2048 then [192 + cp div 64, 128 + cp mod 64]
      else if cp < 65536 then [224 + cp div 4096, 128 + (cp div 64) mod 64, 128 + cp mod 64]
      else [240 + cp div 262144, 128 + (cp div 4096) mod 64, 128 + (cp div 64) mod 64,
            128 + cp mod 64])"

definition hexdigit :: "nat \<Rightarrow> 16 word" where
  "hexdigit n = (if n < 10 then code_unit (48 + n) else code_unit (55 + n))"

definition percent_escape :: "nat \<Rightarrow> jsstring" where
  "percent_escape b = [37, hexdigit (b div 16), hexdigit (b mod 16)]"

fun encodeURIComponent :: "jsstring \<Rightarrow> exn + jsstring" where
  "encodeURIComponent [] = Inr []"
| "encodeURIComponent (c # cs) =
     (if uriUnreserved c then prepend [c] (encodeURIComponent cs)
      else if trailSurrogate c then Inl URIError
      else if \<not> leadSurrogate c
        then prepend (concat (map percent_escape (utf8_octets (unat c)))) (encodeURIComponent cs)
      else (case cs of
              [] \<Rightarrow> Inl URIError
            | d # ds \<Rightarrow>
                if trailSurrogate d
                then prepend (concat (map percent_escape (utf8_octets (pair_code_point c d))))
                       (encodeURIComponent ds)
                else Inl URIError))"

text \<open>
  \<open>decodeURIComponent\<close> copies every code unit but \<open>%\<close>. At a \<open>%\<close> it reads two
  hexadecimal digits (either case) as an octet; an octet below 128 is the code unit
  itself, an octet with \<open>n\<close> leading one bits (2 to 4) starts a UTF-8 sequence of \<open>n\<close>
  escaped octets, which must be the encoding of a code point (no overlong form, no
  surrogate, at most U+10FFFF). Everything else raises URIError.
\<close>

definition hexval :: "16 word \<Rightarrow> nat option" where
  "hexval c = (let u = unat c in
     if 48 \<le> u \<and> u \<le> 57 then Some (u - 48)
     else if 65 \<le> u \<and> u \<le> 70 then Some (u - 55)
     else if 97 \<le> u \<and> u \<le> 102 then Some (u - 87)
     else None)"

fun percent_octet :: "jsstring \<Rightarrow> nat option" where
  "percent_octet (p # h # l # rest) =
     (if p = 37 then
        (case hexval h of None \<Rightarrow> None
         | Some a \<Rightarrow> (case hexval l of None \<Rightarrow> None | Some b \<Rightarrow> Some (16 * a + b)))
      else None)"
| "percent_octet _ = None"

fun continuation_octets :: "nat \<Rightarrow> jsstring \<Rightarrow> nat list option" where
  "continuation_octets 0 s = Some []"
| "continuation_octets (Suc k) s =
     (case percent_octet s of None \<Rightarrow> None
      | Some b \<Rightarrow> (case continuation_octets k (drop 3 s) of None \<Rightarrow> None
                   | Some bs \<Rightarrow> Some (b # bs)))"

definition leading_ones :: "nat \<Rightarrow> nat" where
  "leading_ones b =
     (if b < 128 then 0 else if b < 192 then 1 else if b < 224 then 2
      else if b < 240 then 3 else if b < 248 then 4 else 5)"

definition continuation :: "nat \<Rightarrow> bool" where
  "continuation b = (128 \<le> b \<and> b < 192)"

fun utf8_code_point :: "nat list \<Rightarrow> nat option" where
  "utf8_code_point [b0, b1] =
     (let cp = (b0 - 192) * 64 + (b1 - 128)
      in if continuation b1 \<and> 128 \<le> cp then Some cp else None)"
| "utf8_code_point [b0, b1, b2] =
     (let cp = (b0 - 224) * 4096 + (b1 - 128) * 64 + (b2 - 128)
      in if continuation b1 \<and> continuation b2 \<and> 2048 \<le> cp \<and> \<not> (55296 \<le> cp \<and> cp \<le> 57343)
         then Some cp else None)"
| "utf8_code_point [b0, b1, b2, b3] =
     (let cp = (b0 - 240) * 262144 + (b1 - 128) * 4096 + (b2 - 128) * 64 + (b3 - 128)
      in if continuation b1 \<and> continuation b2 \<and> continuation b3 \<and> 65536 \<le> cp \<and> cp \<le> 1114111
         then Some cp else None)"
| "utf8_code_point _ = None"

definition utf16_units :: "nat \<Rightarrow> jsstring" where
  "utf16_units cp =
     (if cp < 65536 then [code_unit cp]
      else [code_unit (55296 + (cp - 65536) div 1024), code_unit (56320 + (cp - 65536) mod 1024)])"

fun decodeURIComponent :: "jsstring \<Rightarrow> exn + jsstring" where
  "decodeURIComponent [] = Inr []"
| "decodeURIComponent (c # cs) =
     (if c \<noteq> 37 then prepend [c] (decodeURIComponent cs)
      else (case percent_octet (c # cs) of
              None \<Rightarrow> Inl URIError
            | Some b \<Rightarrow>
                (let n = leading_ones b in
                 if n = 0 then prepend [code_unit b] (decodeURIComponent (drop 2 cs))
                 else if n = 1 \<or> 4 < n then Inl URIError
                 else (case continuation_octets (n - 1) (drop 2 cs) of
                         None \<Rightarrow> Inl URIError
                       | Some bs \<Rightarrow>
                           (case utf8_code_point (b # bs) of
                              None \<Rightarrow> Inl URIError
                            | Some cp \<Rightarrow>
                                prepend (utf16_units cp)
                                  (decodeURIComponent (drop (2 + 3 * (n - 1)) cs)))))))"

text \<open>A string is well formed when every surrogate code unit is part of a pair.\<close>

fun well_formed :: "jsstring \<Rightarrow> bool" where
  "well_formed [] = True"
| "well_formed [c] = (\<not> leadSurrogate c \<and> \<not> trailSurrogate c)"
| "well_formed (c # d # ds) =
     (if leadSurrogate c then trailSurrogate d \<and> well_formed ds
      else \<not> trailSurrogate c \<and> well_formed (d # ds))"

subsection \<open>JSON values and the conversions the program applies to them\<close>

text \<open>
  The values \<open>response.json()\<close> yields. \<open>JObj\<close> lists the own properties of an object in
  the order \<open>Object.entries\<close> enumerates them. \<open>JNum\<close> carries an integer: the embedding
  covers the numbers a double represents exactly (magnitude below \<open>2^53\<close>), on which the
  arithmetic below is the program's; fractions are outside it. A property read that finds
  nothing yields \<open>undefined\<close>, written \<open>None\<close>.
\<close>

datatype json = JNull | JBool bool | JNum int | JStr jsstring | JArr "json list"
  | JObj "(jsstring \<times> json) list"

datatype jsnum = Num int | NaN

text \<open>
  Two built-ins are tables of the platform and are parameters of the model: the Unicode
  upper-case mapping, and the conversion of a string to a number, which the program
  meets only when \<open>max_participants\<close> or a \<open>length\<close> is not a number. A string that
  denotes a fraction or an infinity has no value in \<open>jsnum\<close> and is outside the
  embedding.
\<close>

record builtins =
  toUpperCase :: "jsstring \<Rightarrow> jsstring"
  StringToNumber :: "jsstring \<Rightarrow> jsnum"

fun decimal :: "nat \<Rightarrow> jsstring" where
  "decimal n = (if n < 10 then [code_unit (48 + n)]
                else decimal (n div 10) @ [code_unit (48 + n mod 10)])"

declare decimal.simps [simp del]

fun NumberToString :: "jsnum \<Rightarrow> jsstring" where
  "NumberToString NaN = js ''NaN''"
| "NumberToString (Num n) = (if n < 0 then js ''-'' @ decimal (nat (- n)) else decimal (nat n))"

text \<open>
  Subtraction, exact on integers: it is the program's subtraction of doubles as long as
  the operands and the result stay within the exactly represented range.
\<close>

fun sub :: "jsnum \<Rightarrow> jsnum \<Rightarrow> jsnum" where
  "sub (Num a) (Num b) = Num (a - b)"
| "sub _ _ = NaN"

text \<open>
  ToString on a parsed value. An array joins its elements with commas, \<open>null\<close> elements
  as the empty string. An object is \<open>[object Object]\<close>, unless it has an own property
  \<open>toString\<close>: a parsed value is never callable, so the conversion finds no usable method
  and raises TypeError.
\<close>

fun ToString :: "json \<Rightarrow> exn + jsstring" and join_elements :: "json list \<Rightarrow> exn + jsstring" where
  "ToString JNull = Inr (js ''null'')"
| "ToString (JBool b) = Inr (if b then js ''true'' else js ''false'')"
| "ToString (JNum n) = Inr (NumberToString (Num n))"
| "ToString (JStr s) = Inr s"
| "ToString (JArr xs) = join_elements xs"
| "ToString (JObj kvs) =
     (if js ''toString'' \<in> set (map fst kvs) then Inl TypeError
      else Inr (js ''[object Object]''))"
| "join_elements [] = Inr []"
| "join_elements (x # xs) =
     (case (if x = JNull then Inr [] else ToString x) of
        Inl e \<Rightarrow> Inl e
      | Inr s \<Rightarrow>
          (if xs = [] then Inr s
           else (case join_elements xs of Inl e \<Rightarrow> Inl e | Inr t \<Rightarrow> Inr (s @ js '','' @ t))))"

text \<open>The string a template literal inserts for \<open>${v}\<close>.\<close>

fun template_string :: "json option \<Rightarrow> exn + jsstring" where
  "template_string None = Inr (js ''undefined'')"
| "template_string (Some v) = ToString v"

text \<open>
  The conversion of a value assigned to \<open>textContent\<close> (a nullable DOMString): \<open>null\<close> and
  \<open>undefined\<close> give the empty text.
\<close>

fun dom_text :: "json option \<Rightarrow> exn + jsstring" where
  "dom_text None = Inr []"
| "dom_text (Some JNull) = Inr []"
| "dom_text (Some v) = ToString v"

fun ToNumber :: "builtins \<Rightarrow> json option \<Rightarrow> exn + jsnum" where
  "ToNumber b None = Inr NaN"
| "ToNumber b (Some JNull) = Inr (Num 0)"
| "ToNumber b (Some (JBool t)) = Inr (Num (if t then 1 else 0))"
| "ToNumber b (Some (JNum n)) = Inr (Num n)"
| "ToNumber b (Some (JStr s)) = Inr (StringToNumber b s)"
| "ToNumber b (Some (JArr xs)) =
     (case join_elements xs of Inl e \<Rightarrow> Inl e | Inr s \<Rightarrow> Inr (StringToNumber b s))"
| "ToNumber b (Some (JObj kvs)) =
     (if js ''toString'' \<in> set (map fst kvs) then Inl TypeError else Inr NaN)"

fun truthy :: "json option \<Rightarrow> bool" where
  "truthy None = False"
| "truthy (Some JNull) = False"
| "truthy (Some (JBool t)) = t"
| "truthy (Some (JNum n)) = (n \<noteq> 0)"
| "truthy (Some (JStr s)) = (s \<noteq> [])"
| "truthy (Some (JArr xs)) = True"
| "truthy (Some (JObj kvs)) = True"

text \<open>
  Reading one of the properties the program names (\<open>max_participants\<close>, \<open>participants\<close>,
  \<open>description\<close>, \<open>schedule\<close>, \<open>message\<close>, \<open>detail\<close>): no built-in prototype defines
  them, so only an object can have one; reading from \<open>null\<close> raises TypeError.
\<close>

fun get_field :: "json \<Rightarrow> jsstring \<Rightarrow> exn + json option" where
  "get_field JNull k = Inl TypeError"
| "get_field (JObj kvs) k = Inr (map_of kvs k)"
| "get_field _ k = Inr None"

text \<open>Reading \<open>.length\<close>, which strings and arrays define themselves.\<close>

fun get_length :: "json option \<Rightarrow> exn + json option" where
  "get_length None = Inl TypeError"
| "get_length (Some JNull) = Inl TypeError"
| "get_length (Some (JStr s)) = Inr (Some (JNum (int (length s))))"
| "get_length (Some (JArr xs)) = Inr (Some (JNum (int (length xs))))"
| "get_length (Some (JObj kvs)) = Inr (map_of kvs (js ''length''))"
| "get_length (Some _) = Inr None"

definition indexed :: "json list \<Rightarrow> (jsstring \<times> json) list" where
  "indexed xs = zip (map decimal [0..<length xs]) xs"

fun Object_entries :: "json \<Rightarrow> exn + (jsstring \<times> json) list" where
  "Object_entries JNull = Inl TypeError"
| "Object_entries (JStr s) = Inr (indexed (map (\<lambda>c. JStr [c]) s))"
| "Object_entries (JArr xs) = Inr (indexed xs)"
| "Object_entries (JObj kvs) = Inr kvs"
| "Object_entries _ = Inr []"

subsection \<open>The page\<close>

text \<open>
  The two containers the program rewrites hold the markup last assigned to \<open>innerHTML\<close>
  (kept as the string the program assigned) and the elements appended since: activity
  cards (a \<open>div\<close> of class \<open>activity-card\<close> with its \<open>innerHTML\<close>) and options (\<open>value\<close>
  and \<open>textContent\<close>). The banner has its text and its class list. The other fields
  record effects in the order they happen: timers armed by \<open>setTimeout\<close>, \<open>console.error\<close>
  calls, \<open>fetch\<close> calls, \<open>window.confirm\<close> prompts, calls of \<open>signupForm.reset()\<close>, and
  exceptions that leave a handler uncaught.
\<close>

datatype node = ActivityCard jsstring | OptionElement jsstring jsstring

record container =
  innerHTML :: jsstring
  appended :: "node list"

record message =
  textContent :: jsstring
  classList :: "jsstring list"

datatype callback = HideMessage

datatype timer = Timer nat callback

text \<open>A \<open>fetch\<close> call: the HTTP verb, the URL, and whether \<open>cache: "no-store"\<close> is set.\<close>

datatype request = Request jsstring jsstring bool

record page =
  activitiesList :: container
  activitySelect :: container
  messageDiv :: message
  timers :: "timer list"
  console :: "(jsstring \<times> exn) list"
  requests :: "request list"
  dialogs :: "jsstring list"
  form_resets :: nat
  unhandled :: "exn list"

definition set_innerHTML :: "jsstring \<Rightarrow> container" where
  "set_innerHTML html = \<lparr>innerHTML = html, appended = []\<rparr>"

definition appendChild :: "node \<Rightarrow> container \<Rightarrow> container" where
  "appendChild n c = c\<lparr>appended := appended c @ [n]\<rparr>"

definition set_className :: "jsstring \<Rightarrow> message \<Rightarrow> message" where
  "set_className cls m = m\<lparr>classList := [cls]\<rparr>"

definition classList_remove :: "jsstring \<Rightarrow> message \<Rightarrow> message" where
  "classList_remove cls m = m\<lparr>classList := removeAll cls (classList m)\<rparr>"

definition classList_add :: "jsstring \<Rightarrow> message \<Rightarrow> message" where
  "classList_add cls m =
     (if cls \<in> set (classList m) then m else m\<lparr>classList := classList m @ [cls]\<rparr>)"

definition hidden :: "message \<Rightarrow> bool" where
  "hidden m = (js ''hidden'' \<in> set (classList m))"

definition setTimeout :: "callback \<Rightarrow> nat \<Rightarrow> page \<Rightarrow> page" where
  "setTimeout cb delay s = s\<lparr>timers := timers s @ [Timer delay cb]\<rparr>"

text \<open>What a timer does when it fires: lines 97-99 and 146, 152.\<close>

fun run_callback :: "callback \<Rightarrow> page \<Rightarrow> page" where
  "run_callback HideMessage s = s\<lparr>messageDiv := classList_add (js ''hidden'') (messageDiv s)\<rparr>"

definition console_error :: "jsstring \<Rightarrow> exn \<Rightarrow> page \<Rightarrow> page" where
  "console_error label e s = s\<lparr>console := console s @ [(label, e)]\<rparr>"

text \<open>
  The outcome of a \<open>fetch\<close> followed by \<open>response.json()\<close>: the request is rejected, or
  a response arrives with its status and a body that parses or does not.
  \<open>response.ok\<close> holds for the statuses 200 to 299.
\<close>

datatype body = Malformed | Json json

datatype fetch_outcome = Rejected | Response nat body

definition ok :: "nat \<Rightarrow> bool" where
  "ok status = (200 \<le> status \<and> status \<le> 299)"

definition fetch :: "jsstring \<Rightarrow> jsstring \<Rightarrow> bool \<Rightarrow> page \<Rightarrow> page" where
  "fetch m u ns s = s\<lparr>requests := requests s @ [Request m u ns]\<rparr>"

subsection \<open>fetchActivities (lines 8-62)\<close>

definition nl :: jsstring where
  "nl = [10]"

definition indent :: "nat \<Rightarrow> jsstring" where
  "indent n = replicate n 32"

text \<open>The item of one participant: the template of line 32.\<close>

definition li_html :: "jsstring \<Rightarrow> jsstring \<Rightarrow> jsstring \<Rightarrow> jsstring \<Rightarrow> jsstring" where
  \<open>li_html activity email avatar label =
     js ''<li class="participant-item" data-activity="'' @ activity
     @ js ''" data-email="'' @ email
     @ js ''"><span class="avatar">'' @ avatar
     @ js ''</span><span class="participant-label">'' @ label
     @ js ''</span><button class="participant-remove" title="Remove participant">&times;</button></li>''\<close>

text \<open>
  The callback of the inner \<open>forEach\<close> (lines 28-33) for the participant \<open>p\<close>. The
  template evaluates \<open>encodeURIComponent(name)\<close>, then \<open>encodeURIComponent(p)\<close> (which first
  converts \<open>p\<close> to a string), then \<open>label.charAt(0).toUpperCase()\<close>, which only a string
  has.
\<close>

definition participant_li :: "builtins \<Rightarrow> jsstring \<Rightarrow> json \<Rightarrow> exn + jsstring" where
  "participant_li b name p =
     (case encodeURIComponent name of
        Inl e \<Rightarrow> Inl e
      | Inr a \<Rightarrow>
          (case ToString p of
             Inl e \<Rightarrow> Inl e
           | Inr ps \<Rightarrow>
               (case encodeURIComponent ps of
                  Inl e \<Rightarrow> Inl e
                | Inr m \<Rightarrow>
                    (case p of
                       JStr label \<Rightarrow> Inr (li_html a m (toUpperCase b (take 1 label)) label)
                     | _ \<Rightarrow> Inl TypeError))))"

fun participants_forEach :: "builtins \<Rightarrow> jsstring \<Rightarrow> json list \<Rightarrow> jsstring \<Rightarrow> exn + jsstring" where
  "participants_forEach b name [] html = Inr html"
| "participants_forEach b name (p # ps) html =
     (case participant_li b name p of
        Inl e \<Rightarrow> Inl e
      | Inr item \<Rightarrow> participants_forEach b name ps (html @ item))"

definition no_participants :: jsstring where
  \<open>no_participants =
     js ''<p class="muted">No participants yet '' @ [8212] @ js '' be the first!</p>''\<close>

text \<open>
  Lines 25-37. The guard is \<open>details.participants && details.participants.length\<close>;
  \<open>forEach\<close> exists on arrays only, so calling it on anything else raises TypeError.
\<close>

definition participantsHtml :: "builtins \<Rightarrow> jsstring \<Rightarrow> json option \<Rightarrow> json option \<Rightarrow> exn + jsstring" where
  \<open>participantsHtml b name participants len =
     (if truthy participants \<and> truthy len then
        (case participants of
           Some (JArr ps) \<Rightarrow>
             (case participants_forEach b name ps (js ''<ul class="participants-list">'') of
                Inl e \<Rightarrow> Inl e
              | Inr html \<Rightarrow> Inr (html @ js ''</ul>''))
         | _ \<Rightarrow> Inl TypeError)
      else Inr no_participants)\<close>

text \<open>
  Line 22: \<open>details.max_participants - details.participants.length\<close>. Both operands are
  read before either is converted to a number.
\<close>

definition spotsLeft :: "builtins \<Rightarrow> json \<Rightarrow> exn + jsnum" where
  "spotsLeft b details =
     (case get_field details (js ''max_participants'') of
        Inl e \<Rightarrow> Inl e
      | Inr maxp \<Rightarrow>
          (case get_field details (js ''participants'') of
             Inl e \<Rightarrow> Inl e
           | Inr participants \<Rightarrow>
               (case get_length participants of
                  Inl e \<Rightarrow> Inl e
                | Inr len \<Rightarrow>
                    (case ToNumber b maxp of
                       Inl e \<Rightarrow> Inl e
                     | Inr x \<Rightarrow>
                         (case ToNumber b len of
                            Inl e \<Rightarrow> Inl e
                          | Inr y \<Rightarrow> Inr (sub x y))))))"

text \<open>The card template of lines 39-48, with its line breaks and indentation.\<close>

definition card_html :: "jsstring \<Rightarrow> jsstring \<Rightarrow> jsstring \<Rightarrow> jsstring \<Rightarrow> jsstring \<Rightarrow> jsstring" where
  \<open>card_html name description schedule spots participants =
     nl @ indent 10 @ js ''<h4>'' @ name @ js ''</h4>''
     @ nl @ indent 10 @ js ''<p>'' @ description @ js ''</p>''
     @ nl @ indent 10 @ js ''<p><strong>Schedule:</strong> '' @ schedule @ js ''</p>''
     @ nl @ indent 10 @ js ''<p><strong>Availability:</strong> '' @ spots @ js '' spots left</p>''
     @ nl @ indent 10 @ js ''<div class="participants">''
     @ nl @ indent 12 @ js ''<h5>Participants</h5>''
     @ nl @ indent 12 @ participants
     @ nl @ indent 10 @ js ''</div>''
     @ nl @ indent 8\<close>

text \<open>
  The body of the outer \<open>forEach\<close> up to the assignment of the card's \<open>innerHTML\<close>
  (lines 19-48): the markup of the card, or the exception raised on the way.
\<close>

definition activityCard :: "builtins \<Rightarrow> jsstring \<Rightarrow> json \<Rightarrow> exn + jsstring" where
  "activityCard b name details =
     (case spotsLeft b details of
        Inl e \<Rightarrow> Inl e
      | Inr spots \<Rightarrow>
          (case get_field details (js ''participants'') of
             Inl e \<Rightarrow> Inl e
           | Inr participants \<Rightarrow>
               (case get_length participants of
                  Inl e \<Rightarrow> Inl e
                | Inr len \<Rightarrow>
                    (case participantsHtml b name participants len of
                       Inl e \<Rightarrow> Inl e
                     | Inr phtml \<Rightarrow>
                         (case get_field details (js ''description'') of
                            Inl e \<Rightarrow> Inl e
                          | Inr description \<Rightarrow>
                              (case template_string description of
                                 Inl e \<Rightarrow> Inl e
                               | Inr d \<Rightarrow>
                                   (case get_field details (js ''schedule'') of
                                      Inl e \<Rightarrow> Inl e
                                    | Inr schedule \<Rightarrow>
                                        (case template_string schedule of
                                           Inl e \<Rightarrow> Inl e
                                         | Inr sc \<Rightarrow>
                                             Inr (card_html name d sc (NumberToString spots)
                                                    phtml)))))))))"

text \<open>
  The outer \<open>forEach\<close> (lines 18-57). An exception stops it; the cards and options
  appended before stay where they are.
\<close>

fun entries_forEach :: "builtins \<Rightarrow> (jsstring \<times> json) list \<Rightarrow> page \<Rightarrow> exn option \<times> page" where
  "entries_forEach b [] s = (None, s)"
| "entries_forEach b ((name, details) # rest) s =
     (case activityCard b name details of
        Inl e \<Rightarrow> (Some e, s)
      | Inr html \<Rightarrow>
          entries_forEach b rest
            (s\<lparr>activitiesList := appendChild (ActivityCard html) (activitiesList s),
               activitySelect := appendChild (OptionElement name name) (activitySelect s)\<rparr>))"

definition load_failure :: jsstring where
  "load_failure = js ''<p>Failed to load activities. Please try again later.</p>''"

definition select_placeholder :: jsstring where
  \<open>select_placeholder = js ''<option value="">-- Select an activity --</option>''\<close>

text \<open>The \<open>catch\<close> block of lines 58-61.\<close>

definition fetchActivities_catch :: "exn \<Rightarrow> page \<Rightarrow> page" where
  "fetchActivities_catch e s =
     console_error (js ''Error fetching activities:'') e
       (s\<lparr>activitiesList := set_innerHTML load_failure\<rparr>)"

definition fetchActivities :: "builtins \<Rightarrow> fetch_outcome \<Rightarrow> page \<Rightarrow> page" where
  "fetchActivities b outcome s =
     (let s1 = fetch (js ''GET'') (js ''/activities'') True s in
      case outcome of
        Rejected \<Rightarrow> fetchActivities_catch FetchError s1
      | Response status Malformed \<Rightarrow> fetchActivities_catch SyntaxError s1
      | Response status (Json activities) \<Rightarrow>
          (let s2 = s1\<lparr>activitiesList := set_innerHTML [],
                       activitySelect := set_innerHTML select_placeholder\<rparr> in
           case Object_entries activities of
             Inl e \<Rightarrow> fetchActivities_catch e s2
           | Inr entries \<Rightarrow>
               (case entries_forEach b entries s2 of
                  (Some e, s3) \<Rightarrow> fetchActivities_catch e s3
                | (None, s3) \<Rightarrow> s3)))"

subsection \<open>The banner\<close>

text \<open>
  Both handlers write the banner the same way: \<open>textContent\<close>, then \<open>className\<close> (which
  replaces the whole class list), and \<open>classList.remove("hidden")\<close>.
\<close>

definition show_message :: "jsstring \<Rightarrow> jsstring \<Rightarrow> page \<Rightarrow> page" where
  "show_message text cls s =
     s\<lparr>messageDiv := set_className cls ((messageDiv s)\<lparr>textContent := text\<rparr>)\<rparr>"

definition unhide :: "page \<Rightarrow> page" where
  "unhide s = s\<lparr>messageDiv := classList_remove (js ''hidden'') (messageDiv s)\<rparr>"

subsection \<open>The submit handler of the sign-up form (lines 65-106)\<close>

text \<open>
  The form values of lines 68-69 and the outcomes of the two requests the handler can
  make: the POST, and the GET of the refresh on success. \<open>event.preventDefault()\<close>
  only stops the browser's own submission and has no counterpart in the page state.
\<close>

record submit_event =
  email_value :: jsstring
  activity_value :: jsstring
  signup_response :: fetch_outcome
  signup_refresh :: fetch_outcome

definition signup_url :: "jsstring \<Rightarrow> jsstring \<Rightarrow> exn + jsstring" where
  "signup_url activity email =
     (case encodeURIComponent activity of
        Inl e \<Rightarrow> Inl e
      | Inr a \<Rightarrow>
          (case encodeURIComponent email of
             Inl e \<Rightarrow> Inl e
           | Inr m \<Rightarrow> Inr (js ''/activities/'' @ a @ js ''/signup?email='' @ m)))"

text \<open>
  The \<open>try\<close> block, lines 72-99: the page it ends in, or the exception raised together
  with the page at that point.
\<close>

definition signup_try :: "builtins \<Rightarrow> submit_event \<Rightarrow> page \<Rightarrow> (exn \<times> page) + page" where
  "signup_try b ev s =
     (case signup_url (activity_value ev) (email_value ev) of
        Inl e \<Rightarrow> Inl (e, s)
      | Inr u \<Rightarrow>
          (let s1 = fetch (js ''POST'') u False s in
           case signup_response ev of
             Rejected \<Rightarrow> Inl (FetchError, s1)
           | Response status Malformed \<Rightarrow> Inl (SyntaxError, s1)
           | Response status (Json result) \<Rightarrow>
               (case (if ok status then
                        (case get_field result (js ''message'') of
                           Inl e \<Rightarrow> Inl (e, s1)
                         | Inr m \<Rightarrow>
                             (case dom_text m of
                                Inl e \<Rightarrow> Inl (e, s1)
                              | Inr text \<Rightarrow>
                                  Inr (fetchActivities b (signup_refresh ev)
                                         ((show_message text (js ''success'') s1)
                                            \<lparr>form_resets := Suc (form_resets s1)\<rparr>))))
                      else
                        (case get_field result (js ''detail'') of
                           Inl e \<Rightarrow> Inl (e, s1)
                         | Inr d \<Rightarrow>
                             (case dom_text (if truthy d then d
                                             else Some (JStr (js ''An error occurred''))) of
                                Inl e \<Rightarrow> Inl (e, s1)
                              | Inr text \<Rightarrow> Inr (show_message text (js ''error'') s1))))
                of
                  Inl x \<Rightarrow> Inl x
                | Inr s2 \<Rightarrow> Inr (setTimeout HideMessage 5000 (unhide s2)))))"

definition signup_submit :: "builtins \<Rightarrow> submit_event \<Rightarrow> page \<Rightarrow> page" where
  "signup_submit b ev s =
     (case signup_try b ev s of
        Inr s' \<Rightarrow> s'
      | Inl (e, s') \<Rightarrow>
          console_error (js ''Error signing up:'') e
            (unhide (show_message (js ''Failed to sign up. Please try again.'') (js ''error'') s')))"

subsection \<open>The click handler of the activities list (lines 112-154)\<close>

text \<open>
  What a click brings: whether it is on or inside a \<open>.participant-remove\<close> element,
  the data attributes of the enclosing \<open>.participant-item\<close> if there is one (an absent
  attribute reads as \<open>undefined\<close>), the answer the user gives to the confirmation, and
  the outcomes of the DELETE and of the refresh.
\<close>

record dataset =
  data_activity :: "jsstring option"
  data_email :: "jsstring option"

record click_event =
  remove_button :: bool
  participant_item :: "dataset option"
  sure :: bool
  delete_response :: fetch_outcome
  delete_refresh :: fetch_outcome

text \<open>\<open>decodeURIComponent\<close> converts its argument to a string first.\<close>

fun attribute_string :: "jsstring option \<Rightarrow> jsstring" where
  "attribute_string None = js ''undefined''"
| "attribute_string (Some v) = v"

definition remove_url :: "jsstring \<Rightarrow> jsstring \<Rightarrow> exn + jsstring" where
  "remove_url activityName email =
     (case encodeURIComponent activityName of
        Inl e \<Rightarrow> Inl e
      | Inr a \<Rightarrow>
          (case encodeURIComponent email of
             Inl e \<Rightarrow> Inl e
           | Inr m \<Rightarrow> Inr (js ''/activities/'' @ a @ js ''/participants?email='' @ m)))"

text \<open>The \<open>try\<close> block, lines 130-146.\<close>

definition remove_try ::
  "builtins \<Rightarrow> click_event \<Rightarrow> jsstring \<Rightarrow> jsstring \<Rightarrow> page \<Rightarrow> (exn \<times> page) + page" where
  "remove_try b cv activityName email s =
     (case remove_url activityName email of
        Inl e \<Rightarrow> Inl (e, s)
      | Inr u \<Rightarrow>
          (let s1 = fetch (js ''DELETE'') u True s in
           case delete_response cv of
             Rejected \<Rightarrow> Inl (FetchError, s1)
           | Response status Malformed \<Rightarrow> Inl (SyntaxError, s1)
           | Response status (Json resJson) \<Rightarrow>
               (case (if ok status then
                        (case get_field resJson (js ''message'') of
                           Inl e \<Rightarrow> Inl (e, s1)
                         | Inr m \<Rightarrow>
                             (case dom_text m of
                                Inl e \<Rightarrow> Inl (e, s1)
                              | Inr text \<Rightarrow>
                                  Inr (fetchActivities b (delete_refresh cv)
                                         (unhide (show_message text (js ''success'') s1)))))
                      else
                        (case get_field resJson (js ''detail'') of
                           Inl e \<Rightarrow> Inl (e, s1)
                         | Inr d \<Rightarrow>
                             (case dom_text (if truthy d then d
                                             else Some (JStr (js ''Failed to remove participant''))) of
                                Inl e \<Rightarrow> Inl (e, s1)
                              | Inr text \<Rightarrow> Inr (unhide (show_message text (js ''error'') s1)))))
                of
                  Inl x \<Rightarrow> Inl x
                | Inr s2 \<Rightarrow> Inr (setTimeout HideMessage 5000 s2))))"

text \<open>
  The handler. The two \<open>decodeURIComponent\<close> calls of lines 120-121 are outside the
  \<open>try\<close>: a URIError there leaves the handler uncaught, before it has done anything.
\<close>

definition remove_click :: "builtins \<Rightarrow> click_event \<Rightarrow> page \<Rightarrow> page" where
  "remove_click b cv s =
     (if \<not> remove_button cv then s
      else case participant_item cv of
        None \<Rightarrow> s
      | Some item \<Rightarrow>
          (case decodeURIComponent (attribute_string (data_activity item)) of
             Inl e \<Rightarrow> s\<lparr>unhandled := unhandled s @ [e]\<rparr>
           | Inr activityName \<Rightarrow>
               (case decodeURIComponent (attribute_string (data_email item)) of
                  Inl e \<Rightarrow> s\<lparr>unhandled := unhandled s @ [e]\<rparr>
                | Inr email \<Rightarrow>
                    if activityName = [] \<or> email = [] then s
                    else
                      (let s1 = s\<lparr>dialogs := dialogs s
                                    @ [js ''Unregister '' @ email @ js '' from '' @ activityName
                                       @ js ''?'']\<rparr> in
                       if \<not> sure cv then s1
                       else case remove_try b cv activityName email s1 of
                         Inr s' \<Rightarrow> s'
                       | Inl (e, s') \<Rightarrow>
                           setTimeout HideMessage 5000
                             (unhide
                                (show_message (js ''Failed to remove participant'') (js ''error'')
                                   (console_error (js ''Failed to remove participant:'') e s')))))))"

subsection \<open>The text a response supplies\<close>

text \<open>
  Both handlers show a text taken from the response in two cases: the \<open>message\<close> of the
  body when the status is OK, and the \<open>detail\<close> of the body when the status is not OK and
  the detail is truthy (lines 83, 90 and 134, 141). \<open>server_text\<close> is that text; it is
  \<open>None\<close> when the response supplies none: no response, a body that is not JSON or is
  \<open>null\<close>, a falsy detail, or a value with no string conversion.
\<close>

fun server_text :: "fetch_outcome \<Rightarrow> jsstring option" where
  "server_text Rejected = None"
| "server_text (Response status Malformed) = None"
| "server_text (Response status (Json result)) =
     (case get_field result (if ok status then js ''message'' else js ''detail'') of
        Inl e \<Rightarrow> None
      | Inr v \<Rightarrow>
          if ok status \<or> truthy v
          then (case dom_text v of Inl e \<Rightarrow> None | Inr t \<Rightarrow> Some t)
          else None)"

subsection \<open>Valid activity maps\<close>

text \<open>
  The activity of the API (\<open>GET /activities\<close>): a description, a schedule, a capacity and
  the identifiers of the participants. \<open>valid_entry\<close> says that an entry of the parsed
  response is a name with the JSON object of such an activity: the four properties are
  there with values of these types, the capacity is a non-negative integer below
  \<open>2^53\<close> (where the program's arithmetic on doubles is integer arithmetic), and the
  name and the identifiers are well-formed strings.
\<close>

record activity =
  activity_description :: jsstring
  activity_schedule :: jsstring
  activity_max_participants :: int
  activity_participants :: "jsstring list"

definition valid_entry :: "jsstring \<times> json \<Rightarrow> activity \<Rightarrow> bool" where
  "valid_entry entry a =
     (case entry of
        (name, JObj props) \<Rightarrow>
          map_of props (js ''description'') = Some (JStr (activity_description a))
          \<and> map_of props (js ''schedule'') = Some (JStr (activity_schedule a))
          \<and> map_of props (js ''max_participants'') = Some (JNum (activity_max_participants a))
          \<and> map_of props (js ''participants'')
              = Some (JArr (map JStr (activity_participants a)))
          \<and> 0 \<le> activity_max_participants a \<and> activity_max_participants a < 2 ^ 53
          \<and> well_formed name \<and> list_all well_formed (activity_participants a)
      | _ \<Rightarrow> False)"

subsection \<open>Data for the worked examples\<close>

text \<open>
  An instance of the two parameters, used where an example needs one: the upper-case
  mapping of the ASCII letters, and the conversion of strings of decimal digits. The
  examples stay inside this range.
\<close>

definition ascii_upper :: "jsstring \<Rightarrow> jsstring" where
  "ascii_upper s = map (\<lambda>c. if 97 \<le> unat c \<and> unat c \<le> 122 then c - 32 else c) s"

definition digits_number :: "jsstring \<Rightarrow> jsnum" where
  "digits_number s =
     (if list_all (\<lambda>c. 48 \<le> unat c \<and> unat c \<le> 57) s
      then Num (foldl (\<lambda>a c. 10 * a + (int (unat c) - 48)) 0 s) else NaN)"

definition ascii_builtins :: builtins where
  "ascii_builtins = \<lparr>toUpperCase = ascii_upper, StringToNumber = digits_number\<rparr>"

text \<open>A page before anything is drawn, the banner hidden.\<close>

definition blank_page :: page where
  "blank_page =
     \<lparr>activitiesList = set_innerHTML [], activitySelect = set_innerHTML select_placeholder,
      messageDiv = \<lparr>textContent = [], classList = [js ''hidden'']\<rparr>,
      timers = [], console = [], requests = [], dialogs = [], form_resets = 0, unhandled = []\<rparr>"

text \<open>
  The activity map of the first scenario, the details of an activity with two
  participants, and the details of an activity sent without its \<open>participants\<close>.
\<close>

definition chess_details :: json where
  "chess_details =
     JObj [(js ''description'', JStr (js ''Learn strategies'')),
           (js ''schedule'', JStr (js ''Fridays'')),
           (js ''max_participants'', JNum 10),
           (js ''participants'', JArr [])]"

definition chess_club :: json where
  "chess_club = JObj [(js ''Chess Club'', chess_details)]"

definition art_details :: json where
  "art_details =
     JObj [(js ''description'', JStr (js ''Paint'')),
           (js ''schedule'', JStr (js ''Mondays'')),
           (js ''max_participants'', JNum 12),
           (js ''participants'', JArr [JStr (js ''amy+art@school.edu''),
                                        JStr (js ''bo@school.edu'')])]"


text \<open>Server answers: a refusal with a detail, a refusal without, and a success.\<close>

definition already_registered :: fetch_outcome where
  "already_registered =
     Response 400 (Json (JObj [(js ''detail'', JStr (js ''Already registered''))]))"

definition no_detail :: fetch_outcome where
  "no_detail = Response 400 (Json (JObj []))"

definition done_message :: fetch_outcome where
  "done_message = Response 200 (Json (JObj [(js ''message'', JStr (js ''Done''))]))"

text \<open>The activities the two example objects carry.\<close>

definition art_activity :: activity where
  "art_activity =
     \<lparr>activity_description = js ''Paint'', activity_schedule = js ''Mondays'',
      activity_max_participants = 12,
      activity_participants = [js ''amy+art@school.edu'', js ''bo@school.edu'']\<rparr>"

definition chess_activity :: activity where
  "chess_activity =
     \<lparr>activity_description = js ''Learn strategies'', activity_schedule = js ''Fridays'',
      activity_max_participants = 10, activity_participants = []\<rparr>"

text \<open>A gateway error: a status that is not OK with a body that is not JSON.\<close>

definition bad_gateway :: fetch_outcome where
  "bad_gateway = Response 502 Malformed"

text \<open>
  A submission of the form for the Chess Club, and a click on the removal control of a
  Chess Club participant, with the \<open>data-activity\<close> attribute as given.
\<close>

definition chess_submit :: "fetch_outcome \<Rightarrow> fetch_outcome \<Rightarrow> submit_event" where
  "chess_submit r r' =
     \<lparr>email_value = js ''amy@school.edu'', activity_value = js ''Chess Club'',
      signup_response = r, signup_refresh = r'\<rparr>"

definition chess_click ::
  "jsstring option \<Rightarrow> bool \<Rightarrow> fetch_outcome \<Rightarrow> fetch_outcome \<Rightarrow> click_event" where
  "chess_click a answer r r' =
     \<lparr>remove_button = True,
      participant_item = Some \<lparr>data_activity = a, data_email = Some (js ''amy%40school.edu'')\<rparr>,
      sure = answer, delete_response = r, delete_refresh = r'\<rparr>"

section \<open>Percent-coding\<close>

text \<open>
  Decoding undoes encoding. The proof follows \<open>encodeURIComponent\<close>: an unreserved
  character is copied by both functions, and the escaped UTF-8 octets of a code point
  decode to the code units they came from, for each of the four lengths of a sequence.
\<close>

lemma unat_code_unit: "n < 65536 \<Longrightarrow> unat (code_unit n) = n"
  by (simp add: code_unit_def unat_of_nat)

lemma code_unit_unat: "code_unit (unat c) = c"
  by (simp add: code_unit_def)

lemma unat_code_unit_bound: "unat (c :: 16 word) < 65536"
  using unsigned_less [of c] by simp

lemma hexval_hexdigit: "n < 16 \<Longrightarrow> hexval (hexdigit n) = Some n"
  by (simp add: hexval_def hexdigit_def unat_code_unit Let_def)

lemma percent_octet_escape:
  assumes "b < 256"
  shows "percent_octet (37 # hexdigit (b div 16) # hexdigit (b mod 16) # r) = Some b"
proof -
  from assms have "b div 16 < 16" by simp
  then have hi: "hexval (hexdigit (b div 16)) = Some (b div 16)" by (rule hexval_hexdigit)
  have lo: "hexval (hexdigit (b mod 16)) = Some (b mod 16)" by (rule hexval_hexdigit) simp
  show ?thesis by (simp add: hi lo)
qed

lemma decode_percent:
  "decodeURIComponent (37 # cs) =
     (case percent_octet (37 # cs) of
              None \<Rightarrow> Inl URIError
            | Some b \<Rightarrow>
                (let n = leading_ones b in
                 if n = 0 then prepend [code_unit b] (decodeURIComponent (drop 2 cs))
                 else if n = 1 \<or> 4 < n then Inl URIError
                 else (case continuation_octets (n - 1) (drop 2 cs) of
                         None \<Rightarrow> Inl URIError
                       | Some bs \<Rightarrow>
                           (case utf8_code_point (b # bs) of
                              None \<Rightarrow> Inl URIError
                            | Some cp \<Rightarrow>
                                prepend (utf16_units cp)
                                  (decodeURIComponent (drop (2 + 3 * (n - 1)) cs))))))"
  by simp

lemma decode_literal: "c \<noteq> 37 \<Longrightarrow> decodeURIComponent (c # cs) = prepend [c] (decodeURIComponent cs)"
  by simp

declare decodeURIComponent.simps(2) [simp del]


declare percent_octet.simps [simp del]

lemma escape_cons: "percent_escape b @ r = 37 # hexdigit (b div 16) # hexdigit (b mod 16) # r"
  by (simp add: percent_escape_def)

lemma radix64_3: "(n::nat) div 4096 * 4096 + (n div 64) mod 64 * 64 + n mod 64 = n"
proof -
  define m where "m = n div 64"
  define q where "q = m div 64"
  have q: "n div 4096 = q" by (simp add: q_def m_def div_mult2_eq)
  have m: "m = q * 64 + m mod 64" by (simp add: q_def)
  have n: "n = m * 64 + n mod 64" by (simp add: m_def)
  have "q * 4096 + m mod 64 * 64 + n mod 64 = (q * 64 + m mod 64) * 64 + n mod 64"
    by (simp add: algebra_simps)
  also have "\<dots> = n" using m n by simp
  finally show ?thesis by (simp only: q m_def)
qed

lemma radix64_4:
  "(n::nat) div 262144 * 262144 + (n div 4096) mod 64 * 4096 + (n div 64) mod 64 * 64 + n mod 64 = n"
proof -
  define m where "m = n div 64"
  define p where "p = m div 64"
  define q where "q = p div 64"
  have q: "n div 262144 = q" by (simp add: q_def p_def m_def div_mult2_eq)
  have p4: "n div 4096 = p" by (simp add: p_def m_def div_mult2_eq)
  have p: "p = q * 64 + p mod 64" by (simp add: q_def)
  have m: "m = p * 64 + m mod 64" by (simp add: p_def)
  have n: "n = m * 64 + n mod 64" by (simp add: m_def)
  have "q * 262144 + p mod 64 * 4096 + m mod 64 * 64 + n mod 64
        = ((q * 64 + p mod 64) * 64 + m mod 64) * 64 + n mod 64"
    by (simp add: algebra_simps)
  also have "\<dots> = n" using p m n by simp
  finally show ?thesis by (simp only: q p4 m_def)
qed

lemma decode_one_octet:
  assumes "cp < 128"
  shows "decodeURIComponent (concat (map percent_escape (utf8_octets cp)) @ r)
         = prepend (utf16_units cp) (decodeURIComponent r)"
proof -
  from assms have b: "cp < 256" by simp
  have "utf8_octets cp = [cp]" using assms by (simp add: utf8_octets_def)
  then show ?thesis using assms
    by (simp add: escape_cons decode_percent percent_octet_escape [OF b]
        leading_ones_def utf16_units_def)
qed


lemma mod64_bound: "(x::nat) mod 64 < 128"
  by (rule order_less_trans [of _ 64]) simp_all

lemma escapes_Cons:
  "concat (map percent_escape (b # bs)) @ r
   = 37 # hexdigit (b div 16) # hexdigit (b mod 16) # (concat (map percent_escape bs) @ r)"
  by (simp add: percent_escape_def)

lemma continuation_octets_escapes:
  "list_all (\<lambda>b. b < 256) bs \<Longrightarrow>
   continuation_octets (length bs) (concat (map percent_escape bs) @ r) = Some bs"
proof (induction bs)
  case Nil
  show ?case by simp
next
  case (Cons b bs)
  then have b: "b < 256" and bs: "list_all (\<lambda>b. b < 256) bs" by simp_all
  show ?case
    unfolding escapes_Cons by (simp add: percent_octet_escape [OF b] Cons.IH [OF bs])
qed

lemma drop_three: "drop (3 + k) (x # y # z # xs) = drop k xs"
  by (simp add: numeral_3_eq_3)

lemma drop_escapes: "drop (3 * length bs) (concat (map percent_escape bs) @ r) = r"
proof (induction bs)
  case Nil
  show ?case by simp
next
  case (Cons b bs)
  have "3 * length (b # bs) = 3 + 3 * length bs" by simp
  then show ?case unfolding escapes_Cons by (simp only: drop_three Cons.IH)
qed

lemma decode_lead:
  assumes "percent_octet (37 # cs) = Some b" and "leading_ones b = n"
    and "n \<noteq> 0" "n \<noteq> 1" "n \<le> 4"
    and "continuation_octets (n - 1) (drop 2 cs) = Some bs"
    and "utf8_code_point (b # bs) = Some cp"
  shows "decodeURIComponent (37 # cs)
         = prepend (utf16_units cp) (decodeURIComponent (drop (2 + 3 * (n - 1)) cs))"
  using assms by (simp add: decode_percent)

lemma decode_sequence:
  assumes b0: "b0 < 256" and bs: "list_all (\<lambda>b. b < 256) bs"
    and n: "leading_ones b0 = Suc (length bs)" and len: "1 \<le> length bs" "length bs \<le> 3"
    and cp: "utf8_code_point (b0 # bs) = Some cp"
  shows "decodeURIComponent (concat (map percent_escape (b0 # bs)) @ r)
         = prepend (utf16_units cp) (decodeURIComponent r)"
proof -
  let ?rest = "concat (map percent_escape bs) @ r"
  define cs where "cs = hexdigit (b0 div 16) # hexdigit (b0 mod 16) # ?rest"
  have oct: "percent_octet (37 # cs) = Some b0"
    unfolding cs_def by (rule percent_octet_escape [OF b0])
  have d2: "drop 2 cs = ?rest"
    by (simp add: cs_def)
  have "drop (2 + 3 * length bs) cs = drop (3 * length bs) ?rest"
    by (simp add: cs_def)
  then have dn: "drop (2 + 3 * (Suc (length bs) - 1)) cs = r"
    by (simp only: drop_escapes diff_Suc_1)
  have co: "continuation_octets (Suc (length bs) - 1) (drop 2 cs) = Some bs"
    by (simp add: d2 continuation_octets_escapes [OF bs])
  have "decodeURIComponent (37 # cs)
        = prepend (utf16_units cp) (decodeURIComponent (drop (2 + 3 * (Suc (length bs) - 1)) cs))"
    using len by (intro decode_lead [OF oct n _ _ _ co cp]) auto
  then have "decodeURIComponent (37 # cs) = prepend (utf16_units cp) (decodeURIComponent r)"
    by (simp only: dn)
  then show ?thesis
    unfolding escapes_Cons cs_def .
qed

lemma decode_two_octets:
  assumes "128 \<le> cp" "cp < 2048"
  shows "decodeURIComponent (concat (map percent_escape (utf8_octets cp)) @ r)
         = prepend (utf16_units cp) (decodeURIComponent r)"
proof -
  let ?b0 = "192 + cp div 64" and ?b1 = "128 + cp mod 64"
  have oct: "utf8_octets cp = [?b0, ?b1]" using assms by (simp add: utf8_octets_def)
  from assms have b0: "?b0 < 256" and r0: "?b0 < 224" by simp_all
  have n: "leading_ones ?b0 = Suc (length [?b1])" using r0 by (simp add: leading_ones_def)
  have cp: "utf8_code_point [?b0, ?b1] = Some cp"
    using assms by (simp add: continuation_def)
  have bs: "list_all (\<lambda>b. b < 256) [?b1]" by simp
  show ?thesis unfolding oct
    by (rule decode_sequence [OF b0 bs n _ _ cp]) simp_all
qed

lemma decode_three_octets:
  assumes "2048 \<le> cp" "cp < 65536" "\<not> (55296 \<le> cp \<and> cp \<le> 57343)"
  shows "decodeURIComponent (concat (map percent_escape (utf8_octets cp)) @ r)
         = prepend (utf16_units cp) (decodeURIComponent r)"
proof -
  let ?b0 = "224 + cp div 4096" and ?b1 = "128 + (cp div 64) mod 64" and ?b2 = "128 + cp mod 64"
  have oct: "utf8_octets cp = [?b0, ?b1, ?b2]" using assms by (simp add: utf8_octets_def)
  from assms have b0: "?b0 < 256" and r0: "?b0 < 240" by simp_all
  have n: "leading_ones ?b0 = Suc (length [?b1, ?b2])" using r0 by (simp add: leading_ones_def)
  have "(?b0 - 224) * 4096 + (?b1 - 128) * 64 + (?b2 - 128)
        = cp div 4096 * 4096 + (cp div 64) mod 64 * 64 + cp mod 64"
    by simp
  then have val: "(?b0 - 224) * 4096 + (?b1 - 128) * 64 + (?b2 - 128) = cp"
    by (simp only: radix64_3)
  have cp: "utf8_code_point [?b0, ?b1, ?b2] = Some cp"
    unfolding utf8_code_point.simps val Let_def using assms by (simp add: continuation_def)
  have bs: "list_all (\<lambda>b. b < 256) [?b1, ?b2]" by (simp add: mod64_bound)
  show ?thesis unfolding oct
    by (rule decode_sequence [OF b0 bs n _ _ cp]) simp_all
qed

lemma decode_four_octets:
  assumes "65536 \<le> cp" "cp \<le> 1114111"
  shows "decodeURIComponent (concat (map percent_escape (utf8_octets cp)) @ r)
         = prepend (utf16_units cp) (decodeURIComponent r)"
proof -
  let ?b0 = "240 + cp div 262144" and ?b1 = "128 + (cp div 4096) mod 64"
    and ?b2 = "128 + (cp div 64) mod 64" and ?b3 = "128 + cp mod 64"
  have oct: "utf8_octets cp = [?b0, ?b1, ?b2, ?b3]" using assms by (simp add: utf8_octets_def)
  from assms have b0: "?b0 < 256" and r0: "?b0 < 248" by simp_all
  have n: "leading_ones ?b0 = Suc (length [?b1, ?b2, ?b3])"
    using r0 by (simp add: leading_ones_def)
  have "(?b0 - 240) * 262144 + (?b1 - 128) * 4096 + (?b2 - 128) * 64 + (?b3 - 128)
        = cp div 262144 * 262144 + (cp div 4096) mod 64 * 4096 + (cp div 64) mod 64 * 64
          + cp mod 64"
    by simp
  then have val: "(?b0 - 240) * 262144 + (?b1 - 128) * 4096 + (?b2 - 128) * 64 + (?b3 - 128) = cp"
    by (simp only: radix64_4)
  have cp: "utf8_code_point [?b0, ?b1, ?b2, ?b3] = Some cp"
    unfolding utf8_code_point.simps val Let_def using assms by (simp add: continuation_def)
  have bs: "list_all (\<lambda>b. b < 256) [?b1, ?b2, ?b3]" by (simp add: mod64_bound)
  show ?thesis unfolding oct
    by (rule decode_sequence [OF b0 bs n _ _ cp]) simp_all
qed

lemma decode_scalar:
  assumes "cp \<le> 1114111" "\<not> (55296 \<le> cp \<and> cp \<le> 57343)"
  shows "decodeURIComponent (concat (map percent_escape (utf8_octets cp)) @ r)
         = prepend (utf16_units cp) (decodeURIComponent r)"
proof -
  consider "cp < 128" | "128 \<le> cp" "cp < 2048" | "2048 \<le> cp" "cp < 65536" | "65536 \<le> cp"
    by linarith
  then show ?thesis
  proof cases
    case 1 then show ?thesis by (rule decode_one_octet)
  next
    case 2 then show ?thesis by (rule decode_two_octets)
  next
    case 3 then show ?thesis using assms(2) by (rule decode_three_octets)
  next
    case 4 then show ?thesis using assms(1) by (rule decode_four_octets)
  qed
qed

lemma pair_code_point_split:
  assumes "leadSurrogate c" "trailSurrogate d"
  obtains hi lo where "unat c = 55296 + hi" "unat d = 56320 + lo" "hi < 1024" "lo < 1024"
    "pair_code_point c d = 65536 + (hi * 1024 + lo)"
proof
  from assms show "unat c = 55296 + (unat c - 55296)" "unat d = 56320 + (unat d - 56320)"
    "unat c - 55296 < 1024" "unat d - 56320 < 1024"
    by (auto simp: leadSurrogate_def trailSurrogate_def)
  show "pair_code_point c d = 65536 + ((unat c - 55296) * 1024 + (unat d - 56320))"
    by (simp add: pair_code_point_def)
qed

lemma utf16_units_pair:
  assumes "leadSurrogate c" "trailSurrogate d"
  shows "utf16_units (pair_code_point c d) = [c, d]"
proof -
  from assms obtain hi lo where s: "unat c = 55296 + hi" "unat d = 56320 + lo" "hi < 1024"
    "lo < 1024" "pair_code_point c d = 65536 + (hi * 1024 + lo)"
    by (rule pair_code_point_split)
  have "(hi * 1024 + lo) div 1024 = hi" "(hi * 1024 + lo) mod 1024 = lo"
    using s(4) by simp_all
  moreover have "code_unit (55296 + hi) = c" "code_unit (56320 + lo) = d"
    using code_unit_unat [of c] code_unit_unat [of d] by (simp_all only: s(1,2))
  ultimately show ?thesis
    by (simp add: utf16_units_def s(5))
qed

lemma pair_code_point_range:
  assumes "leadSurrogate c" "trailSurrogate d"
  shows "65536 \<le> pair_code_point c d" "pair_code_point c d \<le> 1114111"
proof -
  from assms obtain hi lo where s: "unat c = 55296 + hi" "unat d = 56320 + lo" "hi < 1024"
    "lo < 1024" "pair_code_point c d = 65536 + (hi * 1024 + lo)"
    by (rule pair_code_point_split)
  show "65536 \<le> pair_code_point c d" by (simp add: s(5))
  from s(3) have "hi * 1024 \<le> 1023 * 1024" by simp
  with s(4) show "pair_code_point c d \<le> 1114111" by (simp add: s(5))
qed

lemma unreserved_not_percent: "uriUnreserved c \<Longrightarrow> c \<noteq> 37"
  by (auto simp: uriUnreserved_def)

lemma prepend_Inr: "prepend r (Inr t) = Inr (r @ t)"
  by (simp add: prepend_def)

lemma prepend_eq_Inr: "prepend r x = Inr e \<Longrightarrow> \<exists>t. x = Inr t \<and> e = r @ t"
  by (cases x) (simp_all add: prepend_def)

lemma decode_encode:
  "encodeURIComponent s = Inr e \<Longrightarrow> decodeURIComponent e = Inr s"
proof (induction s arbitrary: e rule: encodeURIComponent.induct)
  case 1
  then show ?case by simp
next
  case (2 c cs)
  show ?case
  proof (cases "uriUnreserved c")
    case True
    with "2.prems" obtain t where t: "encodeURIComponent cs = Inr t" "e = [c] @ t"
      by (auto dest: prepend_eq_Inr)
    from "2.IH"(1) [OF True t(1)] show ?thesis
      using unreserved_not_percent [OF True] by (simp add: t(2) decode_literal prepend_Inr)
  next
    case False
    note unres = this
    show ?thesis
    proof (cases "trailSurrogate c")
      case True
      with unres "2.prems" show ?thesis by simp
    next
      case False
      note ntrail = this
      show ?thesis
      proof (cases "leadSurrogate c")
        case False
        with unres ntrail "2.prems" obtain t where t: "encodeURIComponent cs = Inr t"
          "e = concat (map percent_escape (utf8_octets (unat c))) @ t"
          by (auto dest: prepend_eq_Inr)
        have range: "unat c \<le> 1114111" using unat_code_unit_bound [of c] by simp
        have scalar: "\<not> (55296 \<le> unat c \<and> unat c \<le> 57343)"
          using False ntrail by (auto simp: leadSurrogate_def trailSurrogate_def)
        have u: "utf16_units (unat c) = [c]"
          using unat_code_unit_bound [of c] by (simp add: utf16_units_def code_unit_unat)
        from "2.IH"(2) [OF unres ntrail _ t(1)] False show ?thesis
          by (simp add: t(2) decode_scalar [OF range scalar] u prepend_Inr)
      next
        case True
        note lead = this
        show ?thesis
        proof (cases cs)
          case Nil
          with unres ntrail lead "2.prems" show ?thesis by simp
        next
          case (Cons d ds)
          show ?thesis
          proof (cases "trailSurrogate d")
            case False
            with unres ntrail lead Cons "2.prems" show ?thesis by simp
          next
            case True
            with unres ntrail lead Cons "2.prems" obtain t where
              t: "encodeURIComponent ds = Inr t"
              "e = concat (map percent_escape (utf8_octets (pair_code_point c d))) @ t"
              by (auto dest: prepend_eq_Inr)
            have range: "pair_code_point c d \<le> 1114111"
              and scalar: "\<not> (55296 \<le> pair_code_point c d \<and> pair_code_point c d \<le> 57343)"
              using pair_code_point_range [OF lead True] by simp_all
            from "2.IH"(3) [OF unres ntrail _ Cons True t(1)] lead show ?thesis
              by (simp add: t(2) decode_scalar [OF range scalar] utf16_units_pair [OF lead True]
                  prepend_Inr Cons)
          qed
        qed
      qed
    qed
  qed
qed


lemma well_formed_plain:
  "\<not> leadSurrogate c \<Longrightarrow> well_formed (c # cs) = (\<not> trailSurrogate c \<and> well_formed cs)"
  by (cases cs) simp_all

lemma well_formed_pair:
  "leadSurrogate c \<Longrightarrow>
   well_formed (c # cs) = (case cs of [] \<Rightarrow> False | d # ds \<Rightarrow> trailSurrogate d \<and> well_formed ds)"
  by (cases cs) (auto simp: leadSurrogate_def trailSurrogate_def)

lemma unreserved_not_surrogate:
  "uriUnreserved c \<Longrightarrow> \<not> leadSurrogate c \<and> \<not> trailSurrogate c"
  by (auto simp: uriUnreserved_def leadSurrogate_def trailSurrogate_def)

lemma encode_well_formed: "well_formed s \<Longrightarrow> \<exists>e. encodeURIComponent s = Inr e"
proof (induction s rule: encodeURIComponent.induct)
  case 1
  show ?case by simp
next
  case (2 c cs)
  show ?case
  proof (cases "uriUnreserved c")
    case True
    with "2.prems" have "well_formed cs"
      using unreserved_not_surrogate [OF True] by (simp add: well_formed_plain)
    from "2.IH"(1) [OF True this] True show ?thesis by (auto simp: prepend_Inr)
  next
    case False
    note unres = this
    show ?thesis
    proof (cases "leadSurrogate c")
      case False
      with "2.prems" have nt: "\<not> trailSurrogate c" and wf: "well_formed cs"
        by (simp_all add: well_formed_plain)
      from "2.IH"(2) [OF unres nt _ wf] False unres nt show ?thesis
        by (auto simp: prepend_Inr)
    next
      case True
      then have nt: "\<not> trailSurrogate c" by (auto simp: leadSurrogate_def trailSurrogate_def)
      from "2.prems" True obtain d ds where cs: "cs = d # ds" and d: "trailSurrogate d"
        and wf: "well_formed ds"
        by (auto simp: well_formed_pair split: list.splits)
      from "2.IH"(3) [OF unres nt _ cs d wf] True unres nt cs d show ?thesis
        by (auto simp: prepend_Inr)
    qed
  qed
qed

text \<open>
  An encoded string consists of unreserved characters and \<open>%\<close>: it holds no quote,
  ampersand or angle bracket, so the double-quoted data attributes of line 32 carry it
  unchanged.
\<close>

lemma hexdigit_unreserved: "n < 16 \<Longrightarrow> uriUnreserved (hexdigit n)"
  by (auto simp: hexdigit_def uriUnreserved_def unat_code_unit Let_def)

lemma percent_escape_characters:
  "b < 256 \<Longrightarrow> list_all (\<lambda>c. uriUnreserved c \<or> c = 37) (percent_escape b)"
proof -
  assume "b < 256"
  then have "b div 16 < 16" by simp
  moreover have "b mod 16 < 16" by simp
  ultimately show ?thesis by (simp add: percent_escape_def hexdigit_unreserved)
qed

lemma utf8_octets_bound: "cp \<le> 1114111 \<Longrightarrow> list_all (\<lambda>b. b < 256) (utf8_octets cp)"
  by (auto simp: utf8_octets_def mod64_bound)

lemma escapes_characters:
  "list_all (\<lambda>b. b < 256) bs \<Longrightarrow>
   list_all (\<lambda>c. uriUnreserved c \<or> c = 37) (concat (map percent_escape bs))"
  by (induction bs) (simp_all add: percent_escape_characters)

lemma code_point_characters:
  "cp \<le> 1114111 \<Longrightarrow>
   list_all (\<lambda>c. uriUnreserved c \<or> c = 37) (concat (map percent_escape (utf8_octets cp)))"
  by (rule escapes_characters) (rule utf8_octets_bound)

lemma encoded_characters:
  "encodeURIComponent s = Inr e \<Longrightarrow> list_all (\<lambda>c. uriUnreserved c \<or> c = 37) e"
proof (induction s arbitrary: e rule: encodeURIComponent.induct)
  case 1
  then show ?case by simp
next
  case (2 c cs)
  show ?case
  proof (cases "uriUnreserved c")
    case True
    with "2.prems" obtain t where t: "encodeURIComponent cs = Inr t" "e = [c] @ t"
      by (auto dest: prepend_eq_Inr)
    from "2.IH"(1) [OF True t(1)] True show ?thesis by (simp add: t(2))
  next
    case False
    note unres = this
    show ?thesis
    proof (cases "trailSurrogate c")
      case True
      with unres "2.prems" show ?thesis by simp
    next
      case False
      note ntrail = this
      show ?thesis
      proof (cases "leadSurrogate c")
        case False
        with unres ntrail "2.prems" obtain t where t: "encodeURIComponent cs = Inr t"
          "e = concat (map percent_escape (utf8_octets (unat c))) @ t"
          by (auto dest: prepend_eq_Inr)
        have "unat c \<le> 1114111" using unat_code_unit_bound [of c] by simp
        from code_point_characters [OF this] "2.IH"(2) [OF unres ntrail False t(1)]
        show ?thesis by (simp add: t(2))
      next
        case True
        note lead = this
        show ?thesis
        proof (cases cs)
          case Nil
          with unres ntrail lead "2.prems" show ?thesis by simp
        next
          case (Cons d ds)
          show ?thesis
          proof (cases "trailSurrogate d")
            case False
            with unres ntrail lead Cons "2.prems" show ?thesis by simp
          next
            case True
            with unres ntrail lead Cons "2.prems" obtain t where
              t: "encodeURIComponent ds = Inr t"
              "e = concat (map percent_escape (utf8_octets (pair_code_point c d))) @ t"
              by (auto dest: prepend_eq_Inr)
            from code_point_characters [OF pair_code_point_range(2) [OF lead True]]
              "2.IH"(3) [OF unres ntrail _ Cons True t(1)] lead
            show ?thesis by (simp add: t(2))
          qed
        qed
      qed
    qed
  qed
qed

lemma encoded_attribute_value:
  assumes "encodeURIComponent s = Inr e"
  shows "34 \<notin> set e \<and> 38 \<notin> set e \<and> 60 \<notin> set e"
proof -
  have "c \<noteq> 34 \<and> c \<noteq> 38 \<and> c \<noteq> 60" if "uriUnreserved c \<or> c = 37" for c
    using that by (auto simp: uriUnreserved_def)
  with encoded_characters [OF assms] show ?thesis
    by (auto simp: list_all_iff)
qed

text \<open>The definitions that evaluate the encoding of a literal.\<close>

lemmas uri_eval = uriUnreserved_def trailSurrogate_def leadSurrogate_def utf8_octets_def
  percent_escape_def hexdigit_def code_unit_def prepend_def js_def

section \<open>The renderer\<close>

text \<open>
  \<open>fetchActivities\<close> writes the two containers, the console and the request log, and
  nothing else; the outer \<open>forEach\<close> stops at the first activity whose card raises.
\<close>

lemma entries_forEach_frame:
  "entries_forEach b es s = (r, s') \<Longrightarrow>
   messageDiv s' = messageDiv s \<and> timers s' = timers s \<and> console s' = console s
   \<and> requests s' = requests s \<and> dialogs s' = dialogs s \<and> form_resets s' = form_resets s
   \<and> unhandled s' = unhandled s"
proof (induction es arbitrary: s)
  case Nil
  then show ?case by simp
next
  case (Cons x es)
  obtain name details where x: "x = (name, details)" by (cases x)
  show ?case
  proof (cases "activityCard b name details")
    case (Inl e)
    with Cons.prems x show ?thesis by simp
  next
    case (Inr html)
    with Cons.prems x Cons.IH show ?thesis by fastforce
  qed
qed

lemma fetchActivities_catch_frame:
  "messageDiv (fetchActivities_catch e s) = messageDiv s"
  "timers (fetchActivities_catch e s) = timers s"
  "requests (fetchActivities_catch e s) = requests s"
  "dialogs (fetchActivities_catch e s) = dialogs s"
  "form_resets (fetchActivities_catch e s) = form_resets s"
  "unhandled (fetchActivities_catch e s) = unhandled s"
  "activitySelect (fetchActivities_catch e s) = activitySelect s"
  "activitiesList (fetchActivities_catch e s) = set_innerHTML load_failure"
  by (simp_all add: fetchActivities_catch_def console_error_def)

lemma fetchActivities_frame:
  "messageDiv (fetchActivities b r s) = messageDiv s"
  "timers (fetchActivities b r s) = timers s"
  "dialogs (fetchActivities b r s) = dialogs s"
  "form_resets (fetchActivities b r s) = form_resets s"
  "unhandled (fetchActivities b r s) = unhandled s"
  "requests (fetchActivities b r s) = requests s @ [Request (js ''GET'') (js ''/activities'') True]"
proof -
  let ?s1 = "fetch (js ''GET'') (js ''/activities'') True s"
  have frame: "messageDiv s' = messageDiv s \<and> timers s' = timers s \<and> dialogs s' = dialogs s
      \<and> form_resets s' = form_resets s \<and> unhandled s' = unhandled s
      \<and> requests s' = requests s @ [Request (js ''GET'') (js ''/activities'') True]"
    if "s' = fetchActivities b r s" for s'
  proof (cases r)
    case Rejected
    with that show ?thesis
      by (simp add: fetchActivities_def fetchActivities_catch_frame fetch_def)
  next
    case (Response status bd)
    show ?thesis
    proof (cases bd)
      case Malformed
      with that Response show ?thesis
        by (simp add: fetchActivities_def fetchActivities_catch_frame fetch_def)
    next
      case (Json activities)
      let ?s2 = "?s1\<lparr>activitiesList := set_innerHTML [],
                       activitySelect := set_innerHTML select_placeholder\<rparr>"
      show ?thesis
      proof (cases "Object_entries activities")
        case (Inl e)
        with that Response Json show ?thesis
          by (simp add: fetchActivities_def fetchActivities_catch_frame fetch_def)
      next
        case (Inr entries)
        obtain x s3 where run: "entries_forEach b entries ?s2 = (x, s3)"
          by (cases "entries_forEach b entries ?s2")
        from entries_forEach_frame [OF run] have s3: "messageDiv s3 = messageDiv s"
          "timers s3 = timers s" "dialogs s3 = dialogs s" "form_resets s3 = form_resets s"
          "unhandled s3 = unhandled s"
          "requests s3 = requests s @ [Request (js ''GET'') (js ''/activities'') True]"
          by (simp_all add: fetch_def)
        from that Response Json Inr run s3 show ?thesis
          by (cases x) (simp_all add: fetchActivities_def fetchActivities_catch_frame Let_def)
      qed
    qed
  qed
  from frame [OF refl] show "messageDiv (fetchActivities b r s) = messageDiv s"
  "timers (fetchActivities b r s) = timers s"
  "dialogs (fetchActivities b r s) = dialogs s"
  "form_resets (fetchActivities b r s) = form_resets s"
  "unhandled (fetchActivities b r s) = unhandled s"
  "requests (fetchActivities b r s) = requests s @ [Request (js ''GET'') (js ''/activities'') True]"
    by simp_all
qed






text \<open>
  When every card can be drawn, the outer \<open>forEach\<close> appends one card and one option
  per activity, in the order of the entries.
\<close>

lemma entries_forEach_renders:
  "list_all (\<lambda>(name, details). \<not> isl (activityCard b name details)) es \<Longrightarrow>
   entries_forEach b es s =
     (None,
      s\<lparr>activitiesList := (activitiesList s)\<lparr>appended := appended (activitiesList s)
           @ map (\<lambda>(name, details). ActivityCard (projr (activityCard b name details))) es\<rparr>,
        activitySelect := (activitySelect s)\<lparr>appended := appended (activitySelect s)
           @ map (\<lambda>(name, details). OptionElement name name) es\<rparr>\<rparr>)"
proof (induction es arbitrary: s)
  case Nil
  show ?case by simp
next
  case (Cons x es)
  obtain name details where x: "x = (name, details)" by (cases x)
  with Cons.prems obtain html where html: "activityCard b name details = Inr html"
    by (cases "activityCard b name details") simp_all
  from Cons.prems have rest: "list_all (\<lambda>(name, details). \<not> isl (activityCard b name details)) es"
    by simp
  show ?case
    by (simp add: x html Cons.IH [OF rest] appendChild_def)
qed

text \<open>The first scenario: an empty Chess Club with ten places.\<close>

lemma chess_club_card:
  "activityCard b (js ''Chess Club'') chess_details
   = Inr (card_html (js ''Chess Club'') (js ''Learn strategies'') (js ''Fridays'') (js ''10'')
            no_participants)"
  by (simp add: activityCard_def spotsLeft_def participantsHtml_def chess_details_def)
     (simp add: js_def decimal.simps code_unit_def)

lemma chess_club_page:
  "fetchActivities b (Response 200 (Json chess_club)) blank_page
   = blank_page\<lparr>
       activitiesList :=
         \<lparr>innerHTML = [],
          appended = [ActivityCard
            (card_html (js ''Chess Club'') (js ''Learn strategies'') (js ''Fridays'') (js ''10'')
               no_participants)]\<rparr>,
       activitySelect :=
         \<lparr>innerHTML = select_placeholder,
          appended = [OptionElement (js ''Chess Club'') (js ''Chess Club'')]\<rparr>,
       requests := [Request (js ''GET'') (js ''/activities'') True]\<rparr>"
  by (simp add: fetchActivities_def fetch_def chess_club_def chess_club_card Let_def
      set_innerHTML_def appendChild_def blank_page_def)

text \<open>The items of a list of well-formed participant strings.\<close>

lemma participant_li_string:
  assumes "encodeURIComponent name = Inr a" "encodeURIComponent p = Inr m"
  shows "participant_li b name (JStr p) = Inr (li_html a m (toUpperCase b (take 1 p)) p)"
  using assms by (simp add: participant_li_def)

lemma participants_forEach_strings:
  assumes "encodeURIComponent name = Inr a"
  shows "list_all well_formed ps \<Longrightarrow>
    participants_forEach b name (map JStr ps) html
    = Inr (html @ concat (map (\<lambda>p. li_html a (projr (encodeURIComponent p))
                                      (toUpperCase b (take 1 p)) p) ps))"
proof (induction ps arbitrary: html)
  case Nil
  show ?case by simp
next
  case (Cons p ps)
  then have "well_formed p" and rest: "list_all well_formed ps" by simp_all
  then obtain m where m: "encodeURIComponent p = Inr m" using encode_well_formed by blast
  show ?case
    by (simp add: participant_li_string [OF assms m] m Cons.IH [OF rest])
qed

text \<open>
  The page after a valid activity map. For a valid entry every step of the card
  succeeds; the outer \<open>forEach\<close> then appends the card and the option of every entry.
  The two templates are restated as the markup they produce.
\<close>

lemma activityCard_valid:
  assumes "valid_entry (name, details) a"
  shows "spotsLeft b details
           = Inr (Num (activity_max_participants a - int (length (activity_participants a))))"
    and \<open>activityCard b name details = Inr (card_html name (activity_description a) (activity_schedule a)
                (NumberToString
                   (Num (activity_max_participants a - int (length (activity_participants a)))))
                (if activity_participants a = [] then no_participants
                 else js ''<ul class="participants-list">''
                      @ concat (map (\<lambda>p. li_html (projr (encodeURIComponent name))
                                             (projr (encodeURIComponent p))
                                             (toUpperCase b (take 1 p)) p)
                                  (activity_participants a))
                      @ js ''</ul>''))\<close>
proof -
  from assms obtain props where details: "details = JObj props"
    by (cases details) (simp_all add: valid_entry_def)
  from assms have props:
    "map_of props (js ''description'') = Some (JStr (activity_description a))"
    "map_of props (js ''schedule'') = Some (JStr (activity_schedule a))"
    "map_of props (js ''max_participants'') = Some (JNum (activity_max_participants a))"
    "map_of props (js ''participants'') = Some (JArr (map JStr (activity_participants a)))"
    and wf: "well_formed name" "list_all well_formed (activity_participants a)"
    by (simp_all add: valid_entry_def details)
  show sl: "spotsLeft b details
           = Inr (Num (activity_max_participants a - int (length (activity_participants a))))"
    by (simp add: spotsLeft_def details props)
  from wf(1) obtain e where e: "encodeURIComponent name = Inr e"
    using encode_well_formed by blast
  have ph: \<open>participantsHtml b name (Some (JArr (map JStr (activity_participants a))))
              (Some (JNum (int (length (activity_participants a)))))
        = Inr (if activity_participants a = [] then no_participants
               else js ''<ul class="participants-list">''
                    @ concat (map (\<lambda>p. li_html e (projr (encodeURIComponent p))
                                           (toUpperCase b (take 1 p)) p)
                                (activity_participants a))
                    @ js ''</ul>'')\<close>
    by (simp add: participantsHtml_def participants_forEach_strings [OF e wf(2)])
  show \<open>activityCard b name details = Inr (card_html name (activity_description a) (activity_schedule a)
                (NumberToString
                   (Num (activity_max_participants a - int (length (activity_participants a)))))
                (if activity_participants a = [] then no_participants
                 else js ''<ul class="participants-list">''
                      @ concat (map (\<lambda>p. li_html (projr (encodeURIComponent name))
                                             (projr (encodeURIComponent p))
                                             (toUpperCase b (take 1 p)) p)
                                  (activity_participants a))
                      @ js ''</ul>''))\<close>
    using sl by (simp add: activityCard_def details props ph e del: NumberToString.simps)
qed

lemma entries_forEach_valid:
  \<open>list_all2 valid_entry entries acts \<Longrightarrow>
   entries_forEach b entries s =
     (None,
      s\<lparr>activitiesList := (activitiesList s)\<lparr>appended := appended (activitiesList s)
           @ map2 (\<lambda>(name, details) a. ActivityCard
               (card_html name (activity_description a) (activity_schedule a)
                (NumberToString
                   (Num (activity_max_participants a - int (length (activity_participants a)))))
                (if activity_participants a = [] then no_participants
                 else js ''<ul class="participants-list">''
                      @ concat (map (\<lambda>p. li_html (projr (encodeURIComponent name))
                                             (projr (encodeURIComponent p))
                                             (toUpperCase b (take 1 p)) p)
                                  (activity_participants a))
                      @ js ''</ul>''))) entries acts\<rparr>,
        activitySelect := (activitySelect s)\<lparr>appended := appended (activitySelect s)
           @ map (\<lambda>(name, details). OptionElement name name) entries\<rparr>\<rparr>)\<close>
proof (induction entries acts arbitrary: s rule: list_all2_induct)
  case Nil
  show ?case by simp
next
  case (Cons entry entries a acts)
  obtain name details where entry: "entry = (name, details)" by (cases entry)
  from Cons.hyps(1) have v: "valid_entry (name, details) a" by (simp add: entry)
  show ?case
    by (simp add: entry activityCard_valid(2) [OF v] Cons.IH appendChild_def
        del: NumberToString.simps)
qed

lemma fetchActivities_valid:
  assumes "list_all2 valid_entry entries acts"
  shows \<open>activitiesList (fetchActivities b (Response status (Json (JObj entries))) s)
         = \<lparr>innerHTML = [],
            appended = map2 (\<lambda>(name, details) a. ActivityCard
               (card_html name (activity_description a) (activity_schedule a)
                (NumberToString
                   (Num (activity_max_participants a - int (length (activity_participants a)))))
                (if activity_participants a = [] then no_participants
                 else js ''<ul class="participants-list">''
                      @ concat (map (\<lambda>p. li_html (projr (encodeURIComponent name))
                                             (projr (encodeURIComponent p))
                                             (toUpperCase b (take 1 p)) p)
                                  (activity_participants a))
                      @ js ''</ul>''))) entries acts\<rparr>\<close>
    and "activitySelect (fetchActivities b (Response status (Json (JObj entries))) s)
         = \<lparr>innerHTML = select_placeholder,
            appended = map (\<lambda>(name, details). OptionElement name name) entries\<rparr>"
  by (simp_all add: fetchActivities_def Let_def entries_forEach_valid [OF assms]
      set_innerHTML_def del: NumberToString.simps)

lemma li_html_literal:
  \<open>li_html activity email avatar label =
     js ''<li class="participant-item" data-activity="'' @ activity
     @ js ''" data-email="'' @ email
     @ js ''"><span class="avatar">'' @ avatar
     @ js ''</span><span class="participant-label">'' @ label
     @ js ''</span><button class="participant-remove" title="Remove participant">&times;</button></li>''\<close>
  by (simp add: li_html_def)

lemma card_html_literal:
  \<open>card_html name description schedule spots participants =
     js ''\<newline>          <h4>'' @ name
     @ js ''</h4>\<newline>          <p>'' @ description
     @ js ''</p>\<newline>          <p><strong>Schedule:</strong> '' @ schedule
     @ js ''</p>\<newline>          <p><strong>Availability:</strong> '' @ spots
     @ js '' spots left</p>\<newline>          <div class="participants">\<newline>            <h5>Participants</h5>\<newline>            ''
     @ participants
     @ js ''\<newline>          </div>\<newline>        ''\<close>
  by (simp add: card_html_def nl_def indent_def js_def eval_nat_numeral)


section \<open>The handlers\<close>

text \<open>
  The banner after each handler, by the outcome of the request. When a timer fires, the
  banner is hidden; the submit handler arms one whenever its \<open>try\<close> block completes.
\<close>

lemma hide_message_hides: "hidden (messageDiv (run_callback HideMessage s))"
  by (simp add: hidden_def classList_add_def)

lemma hidden_not_style:
  "js ''hidden'' \<noteq> js ''success''" "js ''hidden'' \<noteq> js ''error''"
  by (simp_all add: js_def)

lemmas banner_eval = show_message_def unhide_def set_className_def classList_remove_def
  setTimeout_def console_error_def fetch_def hidden_def hidden_not_style

lemma signup_response_arms_timer:
  "signup_try b ev s = Inr s' \<Longrightarrow>
   timers s' = timers s @ [Timer 5000 HideMessage] \<and> \<not> hidden (messageDiv s')"
  by (auto simp: signup_try_def Let_def banner_eval fetchActivities_frame
      split: sum.splits fetch_outcome.splits body.splits if_splits)

lemma signup_banner:
  assumes "signup_url (activity_value ev) (email_value ev) = Inr u"
  shows "classList (messageDiv (signup_submit b ev s))
           = (if server_text (signup_response ev) \<noteq> None
                \<and> (case signup_response ev of Response status bd \<Rightarrow> ok status | _ \<Rightarrow> False)
              then [js ''success''] else [js ''error''])
         \<and> (case server_text (signup_response ev) of
               Some t \<Rightarrow> textContent (messageDiv (signup_submit b ev s)) = t
             | None \<Rightarrow> True)"
proof (cases "signup_response ev")
  case Rejected
  with assms show ?thesis
    by (simp add: signup_submit_def signup_try_def Let_def banner_eval)
next
  case (Response status bd)
  show ?thesis
  proof (cases bd)
    case Malformed
    with assms Response show ?thesis
      by (simp add: signup_submit_def signup_try_def Let_def banner_eval)
  next
    case (Json result)
    show ?thesis
    proof (cases "get_field result (if ok status then js ''message'' else js ''detail'')")
      case (Inl e)
      with assms Response Json show ?thesis
        by (cases "ok status") (simp_all add: signup_submit_def signup_try_def Let_def banner_eval)
    next
      case (Inr v)
      show ?thesis
      proof (cases "ok status")
        case True
        with assms Response Json Inr show ?thesis
          by (cases "dom_text v")
             (simp_all add: signup_submit_def signup_try_def Let_def banner_eval
                fetchActivities_frame)
      next
        case False
        with assms Response Json Inr show ?thesis
          by (cases "dom_text v"; cases "truthy v")
             (simp_all add: signup_submit_def signup_try_def Let_def banner_eval)
      qed
    qed
  qed
qed

lemma remove_banner:
  assumes "remove_url activityName email = Inr u"
    and "r = (case remove_try b cv activityName email s of
            Inr s' \<Rightarrow> s'
          | Inl (e, s') \<Rightarrow>
              setTimeout HideMessage 5000
                (unhide (show_message (js ''Failed to remove participant'') (js ''error'')
                   (console_error (js ''Failed to remove participant:'') e s'))))"
  shows "classList (messageDiv r)
           = (if server_text (delete_response cv) \<noteq> None
                \<and> (case delete_response cv of Response status bd \<Rightarrow> ok status | _ \<Rightarrow> False)
              then [js ''success''] else [js ''error''])
         \<and> textContent (messageDiv r)
             = (case server_text (delete_response cv) of
                  Some t \<Rightarrow> t | None \<Rightarrow> js ''Failed to remove participant'')
         \<and> timers r = timers s @ [Timer 5000 HideMessage]"
proof (cases "delete_response cv")
  case Rejected
  with assms show ?thesis
    by (simp add: remove_try_def Let_def banner_eval)
next
  case (Response status bd)
  show ?thesis
  proof (cases bd)
    case Malformed
    with assms Response show ?thesis
      by (simp add: remove_try_def Let_def banner_eval)
  next
    case (Json result)
    show ?thesis
    proof (cases "get_field result (if ok status then js ''message'' else js ''detail'')")
      case (Inl e)
      with assms Response Json show ?thesis
        by (cases "ok status") (simp_all add: remove_try_def Let_def banner_eval)
    next
      case (Inr v)
      show ?thesis
      proof (cases "ok status")
        case True
        with assms Response Json Inr show ?thesis
          by (cases "dom_text v")
             (simp_all add: remove_try_def Let_def banner_eval fetchActivities_frame)
      next
        case False
        with assms Response Json Inr show ?thesis
          by (cases "dom_text v"; cases "truthy v")
             (simp_all add: remove_try_def Let_def banner_eval)
      qed
    qed
  qed
qed

lemmas decode_eval = decodeURIComponent.simps percent_octet.simps hexval_def leading_ones_def
  continuation_def utf16_units_def uri_eval

lemmas handler_eval = signup_submit_def signup_try_def remove_click_def
  remove_try_def chess_submit_def chess_click_def Let_def ok_def

text \<open>
  The data attributes end to end: the item drawn for a participant carries the two
  encodings, and a click on an item with these attributes asks about the participant
  and the activity the item was drawn for.
\<close>

lemma item_attributes_round_trip:
  assumes "well_formed name" and "well_formed p" and "name \<noteq> []" and "p \<noteq> []"
  shows "\<exists>a e. participant_li b name (JStr p) = Inr (li_html a e (toUpperCase b (take 1 p)) p)
           \<and> dialogs (remove_click b
                 \<lparr>remove_button = True,
                  participant_item = Some \<lparr>data_activity = Some a, data_email = Some e\<rparr>,
                  sure = False, delete_response = r, delete_refresh = r'\<rparr> s)
               = dialogs s @ [js ''Unregister '' @ p @ js '' from '' @ name @ js ''?'']"
proof -
  from assms(1) obtain a where a: "encodeURIComponent name = Inr a"
    using encode_well_formed by blast
  from assms(2) obtain e where e: "encodeURIComponent p = Inr e"
    using encode_well_formed by blast
  have "decodeURIComponent a = Inr name" "decodeURIComponent e = Inr p"
    by (simp_all add: decode_encode [OF a] decode_encode [OF e])
  with assms(3,4) have "dialogs (remove_click b
                 \<lparr>remove_button = True,
                  participant_item = Some \<lparr>data_activity = Some a, data_email = Some e\<rparr>,
                  sure = False, delete_response = r, delete_refresh = r'\<rparr> s)
               = dialogs s @ [js ''Unregister '' @ p @ js '' from '' @ name @ js ''?'']"
    by (simp add: remove_click_def Let_def)
  with participant_li_string [OF a e] show ?thesis by blast
qed

lemma message_eqI:
  "textContent m = t \<Longrightarrow> classList m = c \<Longrightarrow> m = \<lparr>textContent = t, classList = c\<rparr>"
  by (cases m) simp

lemma chess_urls:
  "signup_url (js ''Chess Club'') (js ''amy@school.edu'')
     = Inr (js ''/activities/Chess%20Club/signup?email=amy%40school.edu'')"
  "remove_url (js ''Chess Club'') (js ''amy@school.edu'')
     = Inr (js ''/activities/Chess%20Club/participants?email=amy%40school.edu'')"
  by (simp_all add: signup_url_def remove_url_def uri_eval)

lemma chess_attributes:
  "decodeURIComponent (js ''Chess%20Club'') = Inr (js ''Chess Club'')"
  "decodeURIComponent (js ''amy%40school.edu'') = Inr (js ''amy@school.edu'')"
  "decodeURIComponent (js ''undefined'') = Inr (js ''undefined'')"
  by (simp_all add: decode_eval)

section \<open>Claims\<close>

text \<open>
  C1. The claim: after every outcome of the submit handler (OK, not OK, exception) a
  5-second timer is armed that hides the banner again. The handler arms the timer at the
  end of its \<open>try\<close> block (line 97), which an exception skips, and its \<open>catch\<close> block
  (lines 100-105) arms none. When the request is rejected, or the body of the response
  is not JSON, the banner is shown with the fixed failure text and the list of timers is
  what it was before. (When the \<open>try\<close> block completes, the timer is armed:
  \<open>signup_response_arms_timer\<close>.)
\<close>

theorem signup_exception_arms_no_timer:
  "timers (signup_submit b (ev\<lparr>signup_response := Rejected\<rparr>) s) = timers s
   \<and> \<not> hidden (messageDiv (signup_submit b (ev\<lparr>signup_response := Rejected\<rparr>) s))
   \<and> textContent (messageDiv (signup_submit b (ev\<lparr>signup_response := Rejected\<rparr>) s))
       = js ''Failed to sign up. Please try again.''
   \<and> timers (signup_submit b (ev\<lparr>signup_response := Response status Malformed\<rparr>) s)
       = timers s"
  by (cases "signup_url (activity_value ev) (email_value ev)")
     (simp_all add: signup_submit_def signup_try_def Let_def banner_eval)



text \<open>
  C3. The claim: for every outcome the removal handler shows the same text, the same
  style and the same 5-second hiding as the submit handler. As amended: when both
  handlers have sent their request and meet the same outcome, the removal handler gives
  the banner the same style as the submit handler (success after an OK response that
  supplies its message, error otherwise); it shows the text the response supplies, which
  is then also the text the submit handler shows, and its own fixed text
  \<open>Failed to remove participant\<close> when the response supplies none; and it arms the
  5-second timer in every outcome.
\<close>

theorem removal_banner_against_signup:
  assumes "remove_button cv" and "participant_item cv = Some item"
    and "decodeURIComponent (attribute_string (data_activity item)) = Inr activityName"
    and "decodeURIComponent (attribute_string (data_email item)) = Inr email"
    and "activityName \<noteq> []" and "email \<noteq> []" and "sure cv"
    and "remove_url activityName email = Inr u"
    and "signup_url (activity_value ev) (email_value ev) = Inr u'"
    and "delete_response cv = signup_response ev"
  shows "classList (messageDiv (remove_click b cv s))
           = classList (messageDiv (signup_submit b ev s))
         \<and> textContent (messageDiv (remove_click b cv s))
             = (case server_text (delete_response cv) of
                  Some t \<Rightarrow> t | None \<Rightarrow> js ''Failed to remove participant'')
         \<and> (server_text (delete_response cv) = None
              \<or> textContent (messageDiv (remove_click b cv s))
                  = textContent (messageDiv (signup_submit b ev s)))
         \<and> timers (remove_click b cv s) = timers s @ [Timer 5000 HideMessage]"
proof -
  let ?s1 = "s\<lparr>dialogs := dialogs s
               @ [js ''Unregister '' @ email @ js '' from '' @ activityName @ js ''?'']\<rparr>"
  have click: "remove_click b cv s =
      (case remove_try b cv activityName email ?s1 of
            Inr s' \<Rightarrow> s'
          | Inl (e, s') \<Rightarrow>
              setTimeout HideMessage 5000
                (unhide (show_message (js ''Failed to remove participant'') (js ''error'')
                   (console_error (js ''Failed to remove participant:'') e s'))))"
    using assms(1-7) by (simp add: remove_click_def Let_def)
  from remove_banner [OF assms(8) click] have
    R: "classList (messageDiv (remove_click b cv s))
           = (if server_text (delete_response cv) \<noteq> None
                \<and> (case delete_response cv of Response status bd \<Rightarrow> ok status | _ \<Rightarrow> False)
              then [js ''success''] else [js ''error''])"
      "textContent (messageDiv (remove_click b cv s))
             = (case server_text (delete_response cv) of
                  Some t \<Rightarrow> t | None \<Rightarrow> js ''Failed to remove participant'')"
      "timers (remove_click b cv s) = timers s @ [Timer 5000 HideMessage]"
    by simp_all
  from signup_banner [OF assms(9), of b s] have
    S: "classList (messageDiv (signup_submit b ev s))
           = (if server_text (signup_response ev) \<noteq> None
                \<and> (case signup_response ev of Response status bd \<Rightarrow> ok status | _ \<Rightarrow> False)
              then [js ''success''] else [js ''error''])"
      "(case server_text (signup_response ev) of
               Some t \<Rightarrow> textContent (messageDiv (signup_submit b ev s)) = t
             | None \<Rightarrow> True)"
    by simp_all
  show ?thesis
  proof (cases "server_text (delete_response cv)")
    case None
    with R S(1) assms(10) show ?thesis by simp
  next
    case (Some t)
    with S(2) assms(10) have "textContent (messageDiv (signup_submit b ev s)) = t" by simp
    with R S(1) assms(10) Some show ?thesis by simp
  qed
qed

theorem removal_banner_against_signup_witness:
  "messageDiv (remove_click ascii_builtins
       (chess_click (Some (js ''Chess%20Club'')) True done_message Rejected) blank_page)
     = \<lparr>textContent = js ''Done'', classList = [js ''success'']\<rparr>
   \<and> messageDiv (signup_submit ascii_builtins (chess_submit done_message Rejected) blank_page)
     = \<lparr>textContent = js ''Done'', classList = [js ''success'']\<rparr>
   \<and> timers (remove_click ascii_builtins
       (chess_click (Some (js ''Chess%20Club'')) True done_message Rejected) blank_page)
     = [Timer 5000 HideMessage]"
proof -
  let ?cv = "chess_click (Some (js ''Chess%20Club'')) True done_message Rejected"
  let ?ev = "chess_submit done_message Rejected"
  let ?item = "\<lparr>data_activity = Some (js ''Chess%20Club''),
                data_email = Some (js ''amy%40school.edu'')\<rparr>"
  have 1: "remove_button ?cv" and 2: "participant_item ?cv = Some ?item" and 7: "sure ?cv"
    by (simp_all add: chess_click_def)
  have 3: "decodeURIComponent (attribute_string (data_activity ?item)) = Inr (js ''Chess Club'')"
    and 4: "decodeURIComponent (attribute_string (data_email ?item)) = Inr (js ''amy@school.edu'')"
    by (simp_all add: chess_attributes)
  have 5: "js ''Chess Club'' \<noteq> []" and 6: "js ''amy@school.edu'' \<noteq> []"
    by (simp_all add: js_def)
  note u = chess_urls(2)
  have 9: "signup_url (activity_value ?ev) (email_value ?ev)
           = Inr (js ''/activities/Chess%20Club/signup?email=amy%40school.edu'')"
    by (simp add: chess_submit_def chess_urls)
  have 10: "delete_response ?cv = signup_response ?ev"
    by (simp add: chess_click_def chess_submit_def)
  have supplied: "server_text (delete_response ?cv) = Some (js ''Done'')"
    by (simp add: chess_click_def done_message_def ok_def)
  have style: "classList (messageDiv (signup_submit ascii_builtins ?ev blank_page))
               = [js ''success'']"
    by (simp add: handler_eval done_message_def chess_urls banner_eval fetchActivities_frame)
  have start: "timers blank_page = []" by (simp add: blank_page_def)
  from removal_banner_against_signup [OF 1 2 3 4 5 6 7 u 9 10, of ascii_builtins blank_page]
  have "classList (messageDiv (remove_click ascii_builtins ?cv blank_page)) = [js ''success'']"
    "textContent (messageDiv (remove_click ascii_builtins ?cv blank_page)) = js ''Done''"
    "textContent (messageDiv (signup_submit ascii_builtins ?ev blank_page)) = js ''Done''"
    "timers (remove_click ascii_builtins ?cv blank_page) = [Timer 5000 HideMessage]"
    by (auto simp: supplied style start)
  with style show ?thesis
    by (simp add: message_eqI)
qed

text \<open>
  The claim as stated fails on a response that is not OK and has no detail: the two
  handlers show different texts.
\<close>

theorem removal_fallback_differs:
  "textContent (messageDiv (remove_click ascii_builtins
       (chess_click (Some (js ''Chess%20Club'')) True no_detail Rejected) blank_page))
     = js ''Failed to remove participant''
   \<and> textContent (messageDiv (signup_submit ascii_builtins (chess_submit no_detail Rejected)
       blank_page))
     = js ''An error occurred''
   \<and> js ''Failed to remove participant'' \<noteq> js ''An error occurred''"
proof -
  have nonempty: "js ''Chess Club'' \<noteq> []" "js ''amy@school.edu'' \<noteq> []"
    by (simp_all add: js_def)
  have "js ''Failed to remove participant'' \<noteq> js ''An error occurred''"
    by (simp add: js_def)
  then show ?thesis using nonempty
    by (simp add: handler_eval no_detail_def chess_urls chess_attributes banner_eval
        blank_page_def)
qed

text \<open>
  C4. The claim: a click on a removal control whose item lacks the activity or the
  participant attribute is dropped without a dialog and without a request. The guard
  of line 123 tests the decoded strings, and the decoding of a missing attribute is the
  string \<open>undefined\<close>, which is not empty. For an item without \<open>data-activity\<close> the
  dialog is shown and, once confirmed, the DELETE request is sent for an activity named
  \<open>undefined\<close>.
\<close>

theorem missing_attribute_still_removes:
  "dialogs (remove_click ascii_builtins (chess_click None True done_message Rejected) blank_page)
     = [js ''Unregister amy@school.edu from undefined?'']
   \<and> requests (remove_click ascii_builtins (chess_click None True done_message Rejected) blank_page)
     = [Request (js ''DELETE'') (js ''/activities/undefined/participants?email=amy%40school.edu'')
          True,
        Request (js ''GET'') (js ''/activities'') True]"
proof -
  have nonempty: "js ''undefined'' \<noteq> []" "js ''amy@school.edu'' \<noteq> []"
    by (simp_all add: js_def)
  have url: "remove_url (js ''undefined'') (js ''amy@school.edu'')
     = Inr (js ''/activities/undefined/participants?email=amy%40school.edu'')"
    by (simp add: remove_url_def uri_eval)
  have prompt: "js ''Unregister '' @ js ''amy@school.edu'' @ js '' from '' @ js ''undefined''
       @ js ''?'' = js ''Unregister amy@school.edu from undefined?''"
    by (simp add: js_def)
  show ?thesis using nonempty
    by (simp add: remove_click_def remove_try_def chess_click_def Let_def ok_def done_message_def
        url chess_attributes banner_eval blank_page_def fetchActivities_frame prompt)
qed

text \<open>
  C5. For every valid activity map, returned with any status and drawn on any page,
  \<open>fetchActivities\<close> leaves in the activities list one card per activity, in the order
  of the map, and for every activity the number computed on line 22 is its capacity
  minus the number of its participants. The markup of the card is written out: it shows
  that number before \<open>spots left\<close>, and its participants list holds one
  \<open>participant-item\<close> per participant, in order, or the placeholder paragraph when
  there is none.
\<close>

theorem spots_left_and_participant_items:
  assumes "list_all2 valid_entry entries acts"
  shows \<open>list_all2 (\<lambda>(name, details) a.
             spotsLeft b details
             = Inr (Num (activity_max_participants a - int (length (activity_participants a)))))
           entries acts
         \<and> activitiesList (fetchActivities b (Response status (Json (JObj entries))) s)
           = \<lparr>innerHTML = [],
              appended = map2 (\<lambda>(name, details) a. ActivityCard
               (js ''\<newline>          <h4>'' @ name
                @ js ''</h4>\<newline>          <p>'' @ activity_description a
                @ js ''</p>\<newline>          <p><strong>Schedule:</strong> ''
                @ activity_schedule a
                @ js ''</p>\<newline>          <p><strong>Availability:</strong> ''
                @ NumberToString
                    (Num (activity_max_participants a - int (length (activity_participants a))))
                @ js '' spots left</p>\<newline>          <div class="participants">\<newline>            <h5>Participants</h5>\<newline>            ''
                @ (if activity_participants a = []
                   then js ''<p class="muted">No participants yet '' @ [8212]
                        @ js '' be the first!</p>''
                   else js ''<ul class="participants-list">''
                        @ concat
                            (map (\<lambda>p. js ''<li class="participant-item" data-activity="''
                                       @ projr (encodeURIComponent name)
                                       @ js ''" data-email="''
                                       @ projr (encodeURIComponent p)
                                       @ js ''"><span class="avatar">''
                                       @ toUpperCase b (take 1 p)
                                       @ js ''</span><span class="participant-label">'' @ p
                                       @ js ''</span><button class="participant-remove" title="Remove participant">&times;</button></li>'')
                               (activity_participants a))
                        @ js ''</ul>'')
                @ js ''\<newline>          </div>\<newline>        '')) entries acts\<rparr>\<close>
proof -
  have "list_all2 (\<lambda>(name, details) a.
             spotsLeft b details
             = Inr (Num (activity_max_participants a - int (length (activity_participants a)))))
           entries acts"
    using assms
    by (rule list_all2_mono) (auto simp: activityCard_valid(1))
  then show ?thesis
    using fetchActivities_valid(1) [OF assms, of b status s,
        unfolded card_html_literal li_html_literal no_participants_def]
    by (rule conjI)
qed

theorem spots_left_and_participant_items_witness:
  \<open>list_all2 valid_entry
     [(js ''Art & Craft'', art_details), (js ''Chess Club'', chess_details)]
     [art_activity, chess_activity]
   \<and> spotsLeft ascii_builtins art_details = Inr (Num 10)
   \<and> spotsLeft ascii_builtins chess_details = Inr (Num 10)
   \<and> activitiesList (fetchActivities ascii_builtins
        (Response 200 (Json (JObj [(js ''Art & Craft'', art_details),
                                   (js ''Chess Club'', chess_details)]))) blank_page)
     = \<lparr>innerHTML = [],
        appended =
          [ActivityCard
             (js ''\<newline>          <h4>Art & Craft</h4>''
              @ js ''\<newline>          <p>Paint</p>''
              @ js ''\<newline>          <p><strong>Schedule:</strong> Mondays</p>''
              @ js ''\<newline>          <p><strong>Availability:</strong> 10 spots left</p>''
              @ js ''\<newline>          <div class="participants">''
              @ js ''\<newline>            <h5>Participants</h5>''
              @ js ''\<newline>            ''
              @ js ''<ul class="participants-list">''
              @ js ''<li class="participant-item" data-activity="Art%20%26%20Craft" data-email="amy%2Bart%40school.edu">''
              @ js ''<span class="avatar">A</span><span class="participant-label">amy+art@school.edu</span>''
              @ js ''<button class="participant-remove" title="Remove participant">&times;</button></li>''
              @ js ''<li class="participant-item" data-activity="Art%20%26%20Craft" data-email="bo%40school.edu">''
              @ js ''<span class="avatar">B</span><span class="participant-label">bo@school.edu</span>''
              @ js ''<button class="participant-remove" title="Remove participant">&times;</button></li>''
              @ js ''</ul>''
              @ js ''\<newline>          </div>''
              @ js ''\<newline>        ''),
           ActivityCard
             (js ''\<newline>          <h4>Chess Club</h4>''
              @ js ''\<newline>          <p>Learn strategies</p>''
              @ js ''\<newline>          <p><strong>Schedule:</strong> Fridays</p>''
              @ js ''\<newline>          <p><strong>Availability:</strong> 10 spots left</p>''
              @ js ''\<newline>          <div class="participants">''
              @ js ''\<newline>            <h5>Participants</h5>''
              @ js ''\<newline>            ''
              @ js ''<p class="muted">No participants yet ''
              @ [8212]
              @ js '' be the first!</p>''
              @ js ''\<newline>          </div>''
              @ js ''\<newline>        '')]\<rparr>\<close>
proof -
  have valid: "list_all2 valid_entry
     [(js ''Art & Craft'', art_details), (js ''Chess Club'', chess_details)]
     [art_activity, chess_activity]"
    by (simp add: valid_entry_def art_details_def chess_details_def art_activity_def
        chess_activity_def uri_eval)
  have n: "encodeURIComponent (js ''Art & Craft'') = Inr (js ''Art%20%26%20Craft'')"
    by (simp add: uri_eval)
  have p1: "encodeURIComponent (js ''amy+art@school.edu'') = Inr (js ''amy%2Bart%40school.edu'')"
    by (simp add: uri_eval)
  have p2: "encodeURIComponent (js ''bo@school.edu'') = Inr (js ''bo%40school.edu'')"
    by (simp add: uri_eval)
  have u1: "toUpperCase ascii_builtins (take (Suc 0) (js ''amy+art@school.edu'')) = js ''A''"
    by (simp add: ascii_builtins_def ascii_upper_def js_def)
  have u2: "toUpperCase ascii_builtins (take (Suc 0) (js ''bo@school.edu'')) = js ''B''"
    by (simp add: ascii_builtins_def ascii_upper_def js_def)
  have ten: "decimal 10 = js ''10''"
    by (simp add: decimal.simps code_unit_def js_def)
  from spots_left_and_participant_items [OF valid, of ascii_builtins 200 blank_page]
  have "spotsLeft ascii_builtins art_details = Inr (Num 10)"
    and "spotsLeft ascii_builtins chess_details = Inr (Num 10)"
    and \<open>activitiesList (fetchActivities ascii_builtins
        (Response 200 (Json (JObj [(js ''Art & Craft'', art_details),
                                   (js ''Chess Club'', chess_details)]))) blank_page)
     = \<lparr>innerHTML = [],
        appended =
          [ActivityCard
             (js ''\<newline>          <h4>Art & Craft</h4>''
              @ js ''\<newline>          <p>Paint</p>''
              @ js ''\<newline>          <p><strong>Schedule:</strong> Mondays</p>''
              @ js ''\<newline>          <p><strong>Availability:</strong> 10 spots left</p>''
              @ js ''\<newline>          <div class="participants">''
              @ js ''\<newline>            <h5>Participants</h5>''
              @ js ''\<newline>            ''
              @ js ''<ul class="participants-list">''
              @ js ''<li class="participant-item" data-activity="Art%20%26%20Craft" data-email="amy%2Bart%40school.edu">''
              @ js ''<span class="avatar">A</span><span class="participant-label">amy+art@school.edu</span>''
              @ js ''<button class="participant-remove" title="Remove participant">&times;</button></li>''
              @ js ''<li class="participant-item" data-activity="Art%20%26%20Craft" data-email="bo%40school.edu">''
              @ js ''<span class="avatar">B</span><span class="participant-label">bo@school.edu</span>''
              @ js ''<button class="participant-remove" title="Remove participant">&times;</button></li>''
              @ js ''</ul>''
              @ js ''\<newline>          </div>''
              @ js ''\<newline>        ''),
           ActivityCard
             (js ''\<newline>          <h4>Chess Club</h4>''
              @ js ''\<newline>          <p>Learn strategies</p>''
              @ js ''\<newline>          <p><strong>Schedule:</strong> Fridays</p>''
              @ js ''\<newline>          <p><strong>Availability:</strong> 10 spots left</p>''
              @ js ''\<newline>          <div class="participants">''
              @ js ''\<newline>            <h5>Participants</h5>''
              @ js ''\<newline>            ''
              @ js ''<p class="muted">No participants yet ''
              @ [8212]
              @ js '' be the first!</p>''
              @ js ''\<newline>          </div>''
              @ js ''\<newline>        '')]\<rparr>\<close>
    by (simp_all add: art_activity_def chess_activity_def n p1 p2 u1 u2 ten) (simp add: js_def)
  with valid show ?thesis by simp
qed

text \<open>
  C6. The claim asks that, for every activity name and participant identifier, decoding
  the percent-encoded data attribute gives the original string back. As amended: for
  every well-formed string (one in which no surrogate code unit is unpaired),
  \<open>encodeURIComponent\<close> succeeds, and \<open>decodeURIComponent\<close> of its result is the string
  itself. This covers every string of reserved URL characters such as \<open>+\<close>, \<open>&\<close>, \<open>@\<close>
  and the space. The encoded string passes through the data attribute unchanged
  (\<open>encoded_attribute_value\<close>), and the click handler recovers the name and the
  identifier the item was drawn for (\<open>item_attributes_round_trip\<close>).
\<close>

theorem percent_coding_round_trip:
  "well_formed s \<Longrightarrow> \<exists>e. encodeURIComponent s = Inr e \<and> decodeURIComponent e = Inr s"
proof -
  assume "well_formed s"
  then obtain e where e: "encodeURIComponent s = Inr e" using encode_well_formed by blast
  then have "decodeURIComponent e = Inr s" by (rule decode_encode)
  with e show ?thesis by blast
qed

theorem percent_coding_round_trip_witness:
  "well_formed (js ''Art & Craft+1@school.edu'')
   \<and> encodeURIComponent (js ''Art & Craft+1@school.edu'')
       = Inr (js ''Art%20%26%20Craft%2B1%40school.edu'')
   \<and> decodeURIComponent (js ''Art%20%26%20Craft%2B1%40school.edu'')
       = Inr (js ''Art & Craft+1@school.edu'')"
proof -
  have wf: "well_formed (js ''Art & Craft+1@school.edu'')"
    by (simp add: uri_eval)
  have enc: "encodeURIComponent (js ''Art & Craft+1@school.edu'')
             = Inr (js ''Art%20%26%20Craft%2B1%40school.edu'')"
    by (simp add: uri_eval)
  from percent_coding_round_trip [OF wf] enc wf show ?thesis by auto
qed

text \<open>
  The claim as stated fails on a string with an unpaired surrogate, which
  \<open>JSON.parse\<close> accepts (\<open>"\ud800"\<close>): nothing is encoded, the item is not drawn.
\<close>

theorem percent_coding_unpaired_surrogate:
  "encodeURIComponent [55296] = Inl URIError
   \<and> participant_li ascii_builtins (js ''Chess Club'') (JStr [55296]) = Inl URIError"
  by (simp add: participant_li_def uri_eval)

text \<open>
  C7. For every sign-up request answered with a status that is not OK, the banner has
  the error style and is visible, and the form is not reset. The banner shows the
  \<open>detail\<close> of the body when it is present (truthy, the test of line 90), and a fixed
  text otherwise: \<open>An error occurred\<close> when the body is JSON without such a detail, and
  \<open>Failed to sign up. Please try again.\<close> when the body is not JSON, is \<open>null\<close>, or
  its detail has no string conversion (the exceptions of lines 80 and 90, caught on
  line 100).
\<close>

theorem signup_failure_shows_detail:
  assumes "signup_url (activity_value ev) (email_value ev) = Inr u"
    and "signup_response ev = Response status bd"
    and "\<not> ok status"
  shows "classList (messageDiv (signup_submit b ev s)) = [js ''error'']
         \<and> \<not> hidden (messageDiv (signup_submit b ev s))
         \<and> form_resets (signup_submit b ev s) = form_resets s
         \<and> textContent (messageDiv (signup_submit b ev s))
             = (case bd of
                  Malformed \<Rightarrow> js ''Failed to sign up. Please try again.''
                | Json result \<Rightarrow>
                    (case get_field result (js ''detail'') of
                       Inl e \<Rightarrow> js ''Failed to sign up. Please try again.''
                     | Inr d \<Rightarrow>
                         if truthy d
                         then (case dom_text d of
                                 Inl e \<Rightarrow> js ''Failed to sign up. Please try again.''
                               | Inr t \<Rightarrow> t)
                         else js ''An error occurred''))"
proof (cases bd)
  case Malformed
  with assms show ?thesis
    by (simp add: signup_submit_def signup_try_def Let_def banner_eval)
next
  case (Json result)
  show ?thesis
  proof (cases "get_field result (js ''detail'')")
    case (Inl e)
    with assms Json show ?thesis
      by (simp add: signup_submit_def signup_try_def Let_def banner_eval)
  next
    case (Inr d)
    with assms Json show ?thesis
      by (cases "dom_text d"; cases "truthy d")
         (simp_all add: signup_submit_def signup_try_def Let_def banner_eval)
  qed
qed

theorem signup_failure_shows_detail_witness:
  "\<not> ok 400 \<and> \<not> ok 502
   \<and> messageDiv (signup_submit ascii_builtins (chess_submit already_registered Rejected) blank_page)
       = \<lparr>textContent = js ''Already registered'', classList = [js ''error'']\<rparr>
   \<and> form_resets (signup_submit ascii_builtins (chess_submit already_registered Rejected)
         blank_page) = form_resets blank_page
   \<and> messageDiv (signup_submit ascii_builtins (chess_submit no_detail Rejected) blank_page)
       = \<lparr>textContent = js ''An error occurred'', classList = [js ''error'']\<rparr>
   \<and> messageDiv (signup_submit ascii_builtins (chess_submit bad_gateway Rejected) blank_page)
       = \<lparr>textContent = js ''Failed to sign up. Please try again.'',
          classList = [js ''error'']\<rparr>
   \<and> form_resets (signup_submit ascii_builtins (chess_submit bad_gateway Rejected) blank_page)
       = form_resets blank_page"
proof -
  have u: "signup_url (activity_value (chess_submit r r')) (email_value (chess_submit r r'))
           = Inr (js ''/activities/Chess%20Club/signup?email=amy%40school.edu'')" for r r'
    by (simp add: chess_submit_def chess_urls)
  have r1: "signup_response (chess_submit already_registered Rejected)
            = Response 400 (Json (JObj [(js ''detail'', JStr (js ''Already registered''))]))"
    and r2: "signup_response (chess_submit no_detail Rejected) = Response 400 (Json (JObj []))"
    and r3: "signup_response (chess_submit bad_gateway Rejected) = Response 502 Malformed"
    by (simp_all add: chess_submit_def already_registered_def no_detail_def bad_gateway_def)
  have s400: "\<not> ok 400" and s502: "\<not> ok 502" by (simp_all add: ok_def)
  have t: "truthy (Some (JStr (js ''Already registered'')))" by (simp add: js_def)
  from signup_failure_shows_detail [OF u r1 s400, of ascii_builtins blank_page]
    signup_failure_shows_detail [OF u r2 s400, of ascii_builtins blank_page]
    signup_failure_shows_detail [OF u r3 s502, of ascii_builtins blank_page]
    s400 s502 t
  show ?thesis by (simp add: message_eqI)
qed

text \<open>
  C8. When the user declines the confirmation, the click handler sends no request and
  leaves the banner, the activities list, the selection control, the timers, the
  console and the form as they were.
\<close>

theorem declined_removal_changes_nothing:
  assumes "\<not> sure cv"
  shows "requests (remove_click b cv s) = requests s
         \<and> messageDiv (remove_click b cv s) = messageDiv s
         \<and> activitiesList (remove_click b cv s) = activitiesList s
         \<and> activitySelect (remove_click b cv s) = activitySelect s
         \<and> timers (remove_click b cv s) = timers s
         \<and> console (remove_click b cv s) = console s
         \<and> form_resets (remove_click b cv s) = form_resets s"
  using assms by (simp add: remove_click_def Let_def split: option.splits sum.splits)

theorem declined_removal_changes_nothing_witness:
  "\<not> sure (chess_click (Some (js ''Chess%20Club'')) False done_message Rejected)
   \<and> dialogs (remove_click ascii_builtins
        (chess_click (Some (js ''Chess%20Club'')) False done_message Rejected) blank_page)
      = [js ''Unregister amy@school.edu from Chess Club?'']
   \<and> requests (remove_click ascii_builtins
        (chess_click (Some (js ''Chess%20Club'')) False done_message Rejected) blank_page) = []
   \<and> messageDiv (remove_click ascii_builtins
        (chess_click (Some (js ''Chess%20Club'')) False done_message Rejected) blank_page)
      = messageDiv blank_page
   \<and> activitiesList (remove_click ascii_builtins
        (chess_click (Some (js ''Chess%20Club'')) False done_message Rejected) blank_page)
      = activitiesList blank_page
   \<and> activitySelect (remove_click ascii_builtins
        (chess_click (Some (js ''Chess%20Club'')) False done_message Rejected) blank_page)
      = activitySelect blank_page
   \<and> timers (remove_click ascii_builtins
        (chess_click (Some (js ''Chess%20Club'')) False done_message Rejected) blank_page) = []"
proof -
  let ?cv = "chess_click (Some (js ''Chess%20Club'')) False done_message Rejected"
  have declined: "\<not> sure ?cv" by (simp add: chess_click_def)
  have nonempty: "js ''Chess Club'' \<noteq> []" "js ''amy@school.edu'' \<noteq> []"
    by (simp_all add: js_def)
  have shown: "dialogs (remove_click ascii_builtins ?cv blank_page)
               = [js ''Unregister amy@school.edu from Chess Club?'']"
    using nonempty
    by (simp add: remove_click_def chess_click_def chess_attributes Let_def blank_page_def)
       (simp add: js_def)
  have start: "requests blank_page = []" "timers blank_page = []"
    by (simp_all add: blank_page_def)
  from declined_removal_changes_nothing [OF declined, of ascii_builtins blank_page]
    declined shown start
  show ?thesis by simp
qed

text \<open>
  C9. \<open>fetchActivities\<close> never looks at the status of the response: with the same body,
  any status gives the page a 200 gives, and the banner is not touched. A 500 whose
  body is \<open>{"detail": ...}\<close> is read as an activity map with one activity named
  \<open>detail\<close>, whose details have no participants, and ends in the fixed failure message.
\<close>

theorem status_not_inspected:
  "fetchActivities b (Response status bd) s = fetchActivities b (Response 200 bd) s
   \<and> messageDiv (fetchActivities b (Response status bd) s) = messageDiv s
   \<and> activitiesList (fetchActivities b (Response 500 (Json (JObj [(js ''detail'', JStr msg)]))) s)
       = set_innerHTML load_failure"
proof -
  have "fetchActivities b (Response status bd) s = fetchActivities b (Response 200 bd) s"
    by (simp add: fetchActivities_def)
  moreover have "activityCard b (js ''detail'') (JStr msg) = Inl TypeError"
    by (simp add: activityCard_def spotsLeft_def)
  then have "activitiesList
      (fetchActivities b (Response 500 (Json (JObj [(js ''detail'', JStr msg)]))) s)
      = set_innerHTML load_failure"
    by (simp add: fetchActivities_def fetchActivities_catch_frame)
  ultimately show ?thesis by (simp add: fetchActivities_frame)
qed



end
